theory Spec2Isabelle
  imports Main
begin

section \<open>Errors\<close>

text \<open>
  Go errors are values. One datatype holds the errors the modelled functions build:
  \<^item> \<open>BadRequest msg\<close>: \<^verbatim>\<open>usererror.BadRequest(msg)\<close> and \<^verbatim>\<open>usererror.BadRequestf\<close>;
  \<^item> \<open>ErrNotFound\<close>, \<open>ErrInvalidArgument\<close>: the sentinels \<^verbatim>\<open>types.ErrNotFound\<close> and
    \<^verbatim>\<open>types.ErrInvalidArgument\<close>;
  \<^item> \<open>InvalidSHA v\<close>: the error \<^verbatim>\<open>sha.New\<close> formats for the rejected value \<open>v\<close>;
  \<^item> \<open>Failure msg\<close>: an error raised by a collaborator, a callback or a library;
  \<^item> \<open>CommandFailed code stderr\<close>: a failed git command with its exit code (\<open>None\<close> when
    the process did not exit with a code) and its captured error output;
  \<^item> \<open>Wrapped msg e\<close>: \<^verbatim>\<open>fmt.Errorf("msg: %w", e)\<close>;
  \<^item> \<open>Panic msg\<close>: a \<^verbatim>\<open>panic\<close>.
\<close>

datatype error =
    BadRequest string
  | ErrNotFound
  | ErrInvalidArgument
  | InvalidSHA string
  | Failure string
  | CommandFailed "int option" string
  | Wrapped string error
  | Panic string

section \<open>git/sha: the SHA value type\<close>

text \<open>
  Go strings are byte sequences; a \<open>string\<close> here is the list of those bytes (UTF-8 where
  the text is Unicode).

  \<^verbatim>\<open>strings.TrimSpace\<close> removes the leading and the trailing white space, as
  \<^verbatim>\<open>unicode.IsSpace\<close> defines it: the six ASCII characters, U+0085, U+00A0, U+1680, U+2000 to
  U+200A, U+2028, U+2029, U+202F, U+205F and U+3000. \<open>spaceRunes\<close> lists their UTF-8
  encodings. A byte that starts no such encoding (an invalid byte included) is not white
  space and ends the trimming.
\<close>

definition spaceRunes :: "string list" where
  "spaceRunes =
     [[CHR 0x09], [CHR 0x0A], [CHR 0x0B], [CHR 0x0C], [CHR 0x0D], [CHR 0x20],
      [CHR 0xC2, CHR 0x85], [CHR 0xC2, CHR 0xA0],
      [CHR 0xE1, CHR 0x9A, CHR 0x80],
      [CHR 0xE2, CHR 0x80, CHR 0x80], [CHR 0xE2, CHR 0x80, CHR 0x81],
      [CHR 0xE2, CHR 0x80, CHR 0x82], [CHR 0xE2, CHR 0x80, CHR 0x83],
      [CHR 0xE2, CHR 0x80, CHR 0x84], [CHR 0xE2, CHR 0x80, CHR 0x85],
      [CHR 0xE2, CHR 0x80, CHR 0x86], [CHR 0xE2, CHR 0x80, CHR 0x87],
      [CHR 0xE2, CHR 0x80, CHR 0x88], [CHR 0xE2, CHR 0x80, CHR 0x89],
      [CHR 0xE2, CHR 0x80, CHR 0x8A],
      [CHR 0xE2, CHR 0x80, CHR 0xA8], [CHR 0xE2, CHR 0x80, CHR 0xA9],
      [CHR 0xE2, CHR 0x80, CHR 0xAF], [CHR 0xE2, CHR 0x81, CHR 0x9F],
      [CHR 0xE3, CHR 0x80, CHR 0x80]]"

text \<open>Removing, from the front of a string, every leading occurrence of the given sequences.\<close>

function trimLeftSeqs :: "string list \<Rightarrow> string \<Rightarrow> string" where
  "trimLeftSeqs seqs s =
     (case find (\<lambda>ws. ws \<noteq> [] \<and> take (length ws) s = ws) seqs of
        None \<Rightarrow> s
      | Some ws \<Rightarrow> trimLeftSeqs seqs (drop (length ws) s))"
  by pat_completeness auto
termination
proof (relation "measure (\<lambda>(seqs, s). length s)")
  show "wf (measure (\<lambda>(seqs, s). length s))" by simp
next
  fix seqs :: "string list" and s ws :: string
  assume "find (\<lambda>ws. ws \<noteq> [] \<and> take (length ws) s = ws) seqs = Some ws"
  then have "ws \<noteq> [] \<and> take (length ws) s = ws" by (auto simp: find_Some_iff)
  then have "0 < length ws \<and> length ws \<le> length s"
    by (metis length_greater_0_conv length_take min.cobounded1)
  then show "((seqs, drop (length ws) s), (seqs, s)) \<in> measure (\<lambda>(seqs, s). length s)"
    by (cases ws) auto
qed

declare trimLeftSeqs.simps [simp del]

definition TrimSpace :: "string \<Rightarrow> string" where
  "TrimSpace s = rev (trimLeftSeqs (map rev spaceRunes) (rev (trimLeftSeqs spaceRunes s)))"

text \<open>
  \<^verbatim>\<open>strings.ToLower\<close>: a string of ASCII bytes has \<open>A\<close>..\<open>Z\<close> lowered. Any other string goes
  through \<^verbatim>\<open>strings.Map(unicode.ToLower, s)\<close>, which reads the Unicode case tables and
  replaces invalid UTF-8: that function of the library is the parameter \<open>unicodeLower\<close>.
\<close>

definition isASCII :: "char \<Rightarrow> bool" where
  "isASCII c = ((of_char c :: nat) < 128)"

definition lowerChar :: "char \<Rightarrow> char" where
  "lowerChar c =
     (case map_of (zip ''ABCDEFGHIJKLMNOPQRSTUVWXYZ'' ''abcdefghijklmnopqrstuvwxyz'') c of
        None \<Rightarrow> c
      | Some l \<Rightarrow> l)"

definition ToLower :: "(string \<Rightarrow> string) \<Rightarrow> string \<Rightarrow> string" where
  "ToLower unicodeLower s = (if list_all isASCII s then map lowerChar s else unicodeLower s)"

record SHA =
  str :: string

text \<open>\<^verbatim>\<open>validSHARegex = "^[0-9a-f]{4,64}$"\<close> and \<^verbatim>\<open>nilRegex = "^0{4,64}$"\<close>.\<close>

definition hexDigit :: "char \<Rightarrow> bool" where
  "hexDigit c = (c \<in> set ''0123456789abcdef'')"

definition validSHARegex :: "string \<Rightarrow> bool" where
  "validSHARegex s = (4 \<le> length s \<and> length s \<le> 64 \<and> list_all hexDigit s)"

definition nilRegex :: "string \<Rightarrow> bool" where
  "nilRegex s = (4 \<le> length s \<and> length s \<le> 64 \<and> list_all (\<lambda>c. c = CHR ''0'') s)"

definition EmptyTree :: string where
  "EmptyTree = ''4b825dc642cb6eb9a060e54bf8d69288fbee4904''"

definition New :: "(string \<Rightarrow> string) \<Rightarrow> string \<Rightarrow> error + SHA" where
  "New unicodeLower v =
     (let v1 = TrimSpace v;
          v2 = ToLower unicodeLower v1
      in if \<not> validSHARegex v2 then Inl (InvalidSHA v2)
         else Inr \<lparr>str = v2\<rparr>)"

definition Must :: "(string \<Rightarrow> string) \<Rightarrow> string \<Rightarrow> error + SHA" where
  "Must unicodeLower v = (case New unicodeLower v of Inl err \<Rightarrow> Inl (Panic ''invalid SHA'') | Inr sha \<Rightarrow> Inr sha)"

text \<open>
  The package variables \<^verbatim>\<open>Nil = Must("0000000000000000000000000000000000000000")\<close> and
  \<^verbatim>\<open>None = SHA{}\<close>. The initialiser of \<^verbatim>\<open>Nil\<close> can panic, so the model keeps its result
  as a sum.
\<close>

definition Nil_SHA :: "(string \<Rightarrow> string) \<Rightarrow> error + SHA" where
  "Nil_SHA unicodeLower = Must unicodeLower ''0000000000000000000000000000000000000000''"

definition None_SHA :: SHA where
  "None_SHA = \<lparr>str = []\<rparr>"

definition IsNil :: "SHA \<Rightarrow> bool" where
  "IsNil s = nilRegex (str s)"

definition IsEmpty :: "SHA \<Rightarrow> bool" where
  "IsEmpty s = (str s = [])"

definition Equal :: "SHA \<Rightarrow> SHA \<Rightarrow> bool" where
  "Equal s val = (str s = str val)"

definition String :: "SHA \<Rightarrow> string" where
  "String s = str s"

text \<open>
  The encodings. \<^verbatim>\<open>encoding/gob\<close> and \<^verbatim>\<open>encoding/json\<close> are libraries: the methods take the
  library's encoder of a string (\<open>enc\<close>) and its decoder into a string (\<open>dec\<close>) as
  parameters, over any type \<open>'b\<close> of encoded data. The decoding methods have a pointer
  receiver: they return the error and the receiver as the call leaves it.
\<close>

definition GobEncode :: "(string \<Rightarrow> error + 'b) \<Rightarrow> SHA \<Rightarrow> error + 'b" where
  "GobEncode enc s =
     (case enc (str s) of
        Inl err \<Rightarrow> Inl (Wrapped ''failed to pack sha value'' err)
      | Inr buffer \<Rightarrow> Inr buffer)"

definition GobDecode :: "('b \<Rightarrow> error + string) \<Rightarrow> SHA \<Rightarrow> 'b \<Rightarrow> error option \<times> SHA" where
  "GobDecode dec s data =
     (case dec data of
        Inl err \<Rightarrow> (Some (Wrapped ''failed to unpack sha value'' err), s)
      | Inr st \<Rightarrow> (None, s\<lparr>str := st\<rparr>))"

definition MarshalJSON :: "(string \<Rightarrow> error + 'b) \<Rightarrow> SHA \<Rightarrow> error + 'b" where
  "MarshalJSON enc s = enc (str s)"

definition UnmarshalJSON ::
  "('b \<Rightarrow> error + string) \<Rightarrow> (string \<Rightarrow> string) \<Rightarrow> SHA \<Rightarrow> 'b \<Rightarrow> error option \<times> SHA" where
  "UnmarshalJSON dec unicodeLower s data =
     (case dec data of
        Inl err \<Rightarrow> (Some err, s)
      | Inr st \<Rightarrow>
          (case New unicodeLower st of
             Inl err \<Rightarrow> (Some err, s)
           | Inr sha \<Rightarrow> (None, s\<lparr>str := str sha\<rparr>)))"

text \<open>
  Two concrete codecs to run the decoders on. \<open>gobString\<close> frames a string of fewer than
  125 bytes as \<^verbatim>\<open>encoding/gob\<close> frames a top-level string: the message length, the type id
  of \<^verbatim>\<open>string\<close> (6, written \<open>0x0C\<close>), a zero field delta, the string length, the bytes.
  \<open>jsonString\<close> writes a string that needs no escape between double quotes. The
  theorems about the four methods hold for every codec; these two supply concrete data.
\<close>

definition gobString :: "string \<Rightarrow> error + string" where
  "gobString s =
     (if length s < 125
      then Inr ([char_of (length s + 3), CHR 0x0C, CHR 0x00, char_of (length s)] @ s)
      else Inl (Failure ''gobString: 125 bytes or more''))"

definition ungobString :: "string \<Rightarrow> error + string" where
  "ungobString data =
     (case data of
        n # t # d # l # s \<Rightarrow>
          if t = CHR 0x0C \<and> d = CHR 0x00 \<and> (of_char l :: nat) < 125
             \<and> (of_char n :: nat) = of_char l + 3 \<and> (of_char l :: nat) \<le> length s
          then Inr (take (of_char l) s)
          else Inl (Failure ''ungobString: not a framed string'')
      | _ \<Rightarrow> Inl (Failure ''ungobString: unexpected EOF''))"

definition jsonPlain :: "char \<Rightarrow> bool" where
  "jsonPlain c = ((of_char c :: nat) \<ge> 32 \<and> (of_char c :: nat) < 127
                  \<and> c \<notin> set [CHR 0x22, CHR 0x5C, CHR ''<'', CHR ''>'', CHR ''&''])"

definition jsonString :: "string \<Rightarrow> error + string" where
  "jsonString s =
     (if list_all jsonPlain s then Inr ([CHR 0x22] @ s @ [CHR 0x22])
      else Inl (Failure ''jsonString: a byte that needs an escape''))"

definition unjsonString :: "string \<Rightarrow> error + string" where
  "unjsonString data =
     (case data of
        q # rest \<Rightarrow>
          if q = CHR 0x22 \<and> rest \<noteq> [] \<and> last rest = CHR 0x22 \<and> list_all jsonPlain (butlast rest)
          then Inr (butlast rest)
          else Inl (Failure ''unjsonString: not a plain string literal'')
      | [] \<Rightarrow> Inl (Failure ''unjsonString: unexpected end of JSON input''))"

section \<open>internal/api/controller/check: the status check report\<close>

text \<open>
  \<^verbatim>\<open>types.CheckPayload\<close> and \<^verbatim>\<open>ReportInput\<close>. \<^verbatim>\<open>enum.CheckStatus\<close> and \<^verbatim>\<open>enum.CheckPayloadKind\<close>
  are string types; \<open>Data\<close> holds the bytes of the raw JSON message.
\<close>

record CheckPayload =
  Version :: string
  Kind :: string
  Data :: string

record ReportInput =
  CheckUID :: string
  Status :: string
  Summary :: string
  Link :: string
  Payload :: CheckPayload

definition regexpCheckUID :: string where
  "regexpCheckUID = ''^[a-zA-Z_][0-9a-zA-Z-_.$]{0,127}$''"

definition uidFirstChar :: "char \<Rightarrow> bool" where
  "uidFirstChar c = (c \<in> set ''abcdefghijklmnopqrstuvwxyzABCDEFGHIJKLMNOPQRSTUVWXYZ_'')"

definition uidRestChar :: "char \<Rightarrow> bool" where
  "uidRestChar c =
     (c \<in> set ''0123456789abcdefghijklmnopqrstuvwxyzABCDEFGHIJKLMNOPQRSTUVWXYZ-_.$'')"

text \<open>\<^verbatim>\<open>matcherCheckUID.MatchString\<close>: one first character, then at most 127 more.\<close>

definition matcherCheckUID :: "string \<Rightarrow> bool" where
  "matcherCheckUID s =
     (case s of
        [] \<Rightarrow> False
      | c # cs \<Rightarrow> uidFirstChar c \<and> length cs \<le> 127 \<and> list_all uidRestChar cs)"

text \<open>
  The constant \<^verbatim>\<open>enum.CheckPayloadKindExternal\<close> is declared in package \<^verbatim>\<open>types/enum\<close>; the
  specification names the kind "external".
\<close>

definition CheckPayloadKindExternal :: string where
  "CheckPayloadKindExternal = ''external''"

text \<open>
  \<^verbatim>\<open>(in *ReportInput) Validate()\<close>. The \<^verbatim>\<open>Sanitize\<close> methods of the two enum types are
  declared in package \<^verbatim>\<open>types/enum\<close>: \<open>statusSanitize\<close> and \<open>kindSanitize\<close> are parameters,
  each returning the sanitized value and the \<^verbatim>\<open>ok\<close> flag. The receiver is a pointer: the
  result is the error and the input as the call leaves it.
\<close>

definition Validate ::
  "(string \<Rightarrow> string \<times> bool) \<Rightarrow> (string \<Rightarrow> string \<times> bool) \<Rightarrow> ReportInput
     \<Rightarrow> error option \<times> ReportInput" where
  "Validate statusSanitize kindSanitize inp =
     (if CheckUID inp = [] then (Some (BadRequest ''Status check UID is missing''), inp)
      else if \<not> matcherCheckUID (CheckUID inp)
      then (Some (BadRequest (''Status check UID must match the regular expression: ''
                               @ regexpCheckUID)), inp)
      else if \<not> snd (statusSanitize (Status inp))
      then (Some (BadRequest ''Invalid value provided for status check status''), inp)
      else
        (case kindSanitize (Kind (Payload inp)) of
           (payloadKind, ok) \<Rightarrow>
             if \<not> ok then (Some (BadRequest ''Invalid value provided for the payload type''), inp)
             else
               (let in1 = inp\<lparr>Payload := (Payload inp)\<lparr>Kind := payloadKind\<rparr>\<rparr>
                in if Kind (Payload in1) = CheckPayloadKindExternal
                   then
                     (let in2 = in1\<lparr>Payload := (Payload in1)\<lparr>Version := [], Data := ''{}''\<rparr>\<rparr>
                      in if Link in2 = [] then (Some (BadRequest ''Link is missing''), in2)
                         else (None, in2))
                   else (None, in1))))"

text \<open>
  Modelled from the spec: the \<^verbatim>\<open>Sanitize\<close> methods of \<^verbatim>\<open>enum.CheckStatus\<close> and
  \<^verbatim>\<open>enum.CheckPayloadKind\<close> are missing from the sources. The specification (4.4) says
  that a value "must sanitize to one of the enumerated allowed" values and that the
  sanitized value normalizes case. The enumeration is the parameter \<open>allValues\<close>. The
  function is used to run \<open>Validate\<close> on concrete inputs only; the general theorems
  about \<open>Validate\<close> are stated for every pair of sanitizers.
\<close>

definition Sanitize :: "string list \<Rightarrow> string \<Rightarrow> string \<times> bool" where
  "Sanitize allValues element =
     (if map lowerChar element \<in> set allValues then (map lowerChar element, True)
      else ([], False))"

text \<open>
  The records \<^verbatim>\<open>Report\<close> reads and builds. Of \<^verbatim>\<open>types.Repository\<close> only the fields
  \<^verbatim>\<open>ID\<close>, \<^verbatim>\<open>UID\<close> and \<^verbatim>\<open>GitUID\<close> are read. The principal of the session is of any type
  \<open>'p\<close>, its \<^verbatim>\<open>PrincipalInfo\<close> of any type \<open>'i\<close>.
\<close>

record Repository =
  Repo_ID :: int
  Repo_UID :: string
  Repo_GitUID :: string

record 'p Session =
  Principal :: 'p

record 'i Check =
  Check_CreatedBy :: int
  Check_Created :: int
  Check_Updated :: int
  Check_RepoID :: int
  Check_CommitSHA :: string
  Check_UID :: string
  Check_Status :: string
  Check_Summary :: string
  Check_Link :: string
  Check_Payload :: CheckPayload
  Check_Metadata :: string
  Check_ReportedBy :: 'i

datatype Permission = PermissionCommitCheckReport

text \<open>
  The collaborators of \<^verbatim>\<open>Controller.Report\<close>: the access check, the git RPC client and
  the check store of the controller, and the functions it calls in other packages (the
  sanitizers, \<^verbatim>\<open>gitrpc.ValidateCommitSHA\<close>, the clock, \<^verbatim>\<open>json.Marshal\<close> of the
  metadata and the two accessors of the principal). \<^verbatim>\<open>Upsert\<close> takes a pointer: it yields
  the error or the record as the store leaves it.
\<close>

record ('p, 'i) Controller =
  getRepoCheckAccess :: "'p Session \<Rightarrow> string \<Rightarrow> Permission \<Rightarrow> error + Repository"
  GetCommit :: "string \<Rightarrow> string \<Rightarrow> error option"
  Upsert :: "'i Check \<Rightarrow> error + 'i Check"
  StatusSanitize :: "string \<Rightarrow> string \<times> bool"
  KindSanitize :: "string \<Rightarrow> string \<times> bool"
  ValidateCommitSHA :: "string \<Rightarrow> bool"
  NowUnixMilli :: int
  MarshalMetadata :: "(string \<times> string) list \<Rightarrow> string"
  PrincipalID :: "'p \<Rightarrow> int"
  ToPrincipalInfo :: "'p \<Rightarrow> 'i"

text \<open>The calls \<^verbatim>\<open>Report\<close> makes to its collaborators, in order.\<close>

datatype 'i call =
    AccessChecked string Permission
  | CommitResolved string string
  | CheckUpserted "'i Check"

definition isBackendCall :: "'i call \<Rightarrow> bool" where
  "isBackendCall c = (case c of AccessChecked r p \<Rightarrow> False | CommitResolved u s \<Rightarrow> True
                      | CheckUpserted k \<Rightarrow> True)"

text \<open>
  \<^verbatim>\<open>Controller.Report\<close>: the result, the input as the call leaves it, and the calls made.
\<close>

definition Report ::
  "('p, 'i) Controller \<Rightarrow> 'p Session \<Rightarrow> string \<Rightarrow> string \<Rightarrow> ReportInput
     \<Rightarrow> (string \<times> string) list \<Rightarrow> (error + 'i Check) \<times> ReportInput \<times> 'i call list" where
  "Report c session repoRef commitSHA inp metadata =
     (case getRepoCheckAccess c session repoRef PermissionCommitCheckReport of
        Inl err \<Rightarrow>
          (Inl (Wrapped ''failed to acquire access access to repo'' err), inp,
           [AccessChecked repoRef PermissionCommitCheckReport])
      | Inr repo \<Rightarrow>
          (case Validate (StatusSanitize c) (KindSanitize c) inp of
             (Some errValidate, in1) \<Rightarrow>
               (Inl errValidate, in1, [AccessChecked repoRef PermissionCommitCheckReport])
           | (None, in1) \<Rightarrow>
               if \<not> ValidateCommitSHA c commitSHA
               then (Inl (BadRequest ''invalid commit SHA provided''), in1,
                     [AccessChecked repoRef PermissionCommitCheckReport])
               else
                 (case GetCommit c (Repo_GitUID repo) commitSHA of
                    Some err \<Rightarrow>
                      (Inl (Wrapped (''failed to commit sha='' @ commitSHA) err), in1,
                       [AccessChecked repoRef PermissionCommitCheckReport,
                        CommitResolved (Repo_GitUID repo) commitSHA])
                  | None \<Rightarrow>
                      (let now = NowUnixMilli c;
                           metadataJson = MarshalMetadata c metadata;
                           statusCheckReport =
                             \<lparr>Check_CreatedBy = PrincipalID c (Principal session),
                              Check_Created = now,
                              Check_Updated = now,
                              Check_RepoID = Repo_ID repo,
                              Check_CommitSHA = commitSHA,
                              Check_UID = CheckUID in1,
                              Check_Status = Status in1,
                              Check_Summary = Summary in1,
                              Check_Link = Link in1,
                              Check_Payload = Payload in1,
                              Check_Metadata = metadataJson,
                              Check_ReportedBy = ToPrincipalInfo c (Principal session)\<rparr>;
                           calls = [AccessChecked repoRef PermissionCommitCheckReport,
                                    CommitResolved (Repo_GitUID repo) commitSHA,
                                    CheckUpserted statusCheckReport]
                       in case Upsert c statusCheckReport of
                            Inl err \<Rightarrow>
                              (Inl (Wrapped (''failed to upsert status check result for repo=''
                                             @ Repo_UID repo) err), in1, calls)
                          | Inr stored \<Rightarrow> (Inr stored, in1, calls)))))"

section \<open>gitrpc/internal/gitea: references\<close>

text \<open>
  \<^verbatim>\<open>enum.RefType\<close> is declared in package \<^verbatim>\<open>gitrpc/enum\<close>. The five constants are the ones
  \<^verbatim>\<open>getRef\<close> switches on; \<open>RefTypeOther\<close> stands for every other value of the type, which
  the switch sends to its default case.
\<close>

datatype RefType =
    RefTypeRaw
  | RefTypeBranch
  | RefTypeTag
  | RefTypePullReqHead
  | RefTypePullReqMerge
  | RefTypeOther

text \<open>The prefixes \<^verbatim>\<open>gitea.BranchPrefix\<close> and \<^verbatim>\<open>gitea.TagPrefix\<close> of the gitea library.\<close>

definition BranchPrefix :: string where
  "BranchPrefix = ''refs/heads/''"

definition TagPrefix :: string where
  "TagPrefix = ''refs/tags/''"

definition refPullReqPrefix :: string where
  "refPullReqPrefix = ''refs/pullreq/''"

definition refPullReqHeadSuffix :: string where
  "refPullReqHeadSuffix = ''/head''"

definition refPullReqMergeSuffix :: string where
  "refPullReqMergeSuffix = ''/merge''"

fun getRef :: "string \<Rightarrow> RefType \<Rightarrow> error + string" where
  "getRef refName RefTypeRaw = Inr refName"
| "getRef refName RefTypeBranch = Inr (BranchPrefix @ refName)"
| "getRef refName RefTypeTag = Inr (TagPrefix @ refName)"
| "getRef refName RefTypePullReqHead = Inr (refPullReqPrefix @ refName @ refPullReqHeadSuffix)"
| "getRef refName RefTypePullReqMerge = Inr (refPullReqPrefix @ refName @ refPullReqMergeSuffix)"
| "getRef refName RefTypeOther = Inl ErrInvalidArgument"

text \<open>
  Running a git command (\<^verbatim>\<open>gitea.NewCommand(ctx, args...).RunStdString\<close>) is an effect on
  the world \<open>'w\<close> of repositories: from the world, the directory and the arguments to
  the standard output, the error if the command failed (its exit code, if it has one, and
  its error output), and the world after the command.
\<close>

type_synonym RunStdError = "int option \<times> string"

type_synonym 'w git = "'w \<Rightarrow> string \<Rightarrow> string list \<Rightarrow> (string \<times> RunStdError option) \<times> 'w"

definition IsExitCode :: "RunStdError \<Rightarrow> int \<Rightarrow> bool" where
  "IsExitCode err code = (fst err = Some code)"

definition UpdateRef ::
  "'w git \<Rightarrow> 'w \<Rightarrow> string \<Rightarrow> string \<Rightarrow> RefType \<Rightarrow> string \<Rightarrow> string \<Rightarrow> error option \<times> 'w" where
  "UpdateRef git w repoPath refName refType newValue oldValue =
     (case getRef refName refType of
        Inl errRef \<Rightarrow> (Some errRef, w)
      | Inr ref \<Rightarrow>
          (let args = [''update-ref'', ref, newValue];
               args = (if oldValue \<noteq> [] then args @ [oldValue] else args)
           in case git w repoPath args of
                ((out, None), w') \<Rightarrow> (None, w')
              | ((out, Some err), w') \<Rightarrow>
                  if IsExitCode err 128 then (Some ErrNotFound, w')
                  else (Some (CommandFailed (fst err) (snd err)), w')))"

section \<open>gitrpc/internal/gitea: walking references\<close>

datatype WalkInstruction =
    WalkInstructionSkip
  | WalkInstructionStop
  | WalkInstructionHandle

text \<open>
  The instructor and the handler are Go closures: what a call returns may depend on the
  calls made before it. Each is a function of the calls of the walk so far (\<open>'r event list\<close>,
  oldest first) and of the reference \<open>'r\<close> it is called with. The walk returns the
  calls it made, which is how the theorems count them.
\<close>

datatype 'r event =
    InstructorCalled 'r
  | HandlerCalled 'r

type_synonym 'r WalkReferencesInstructor = "'r event list \<Rightarrow> 'r \<Rightarrow> error + WalkInstruction"

type_synonym 'r WalkReferencesHandler = "'r event list \<Rightarrow> 'r \<Rightarrow> error option"

definition isInstructorCall :: "'r event \<Rightarrow> bool" where
  "isInstructorCall e = (case e of InstructorCalled r \<Rightarrow> True | HandlerCalled r \<Rightarrow> False)"

definition isHandlerCall :: "'r event \<Rightarrow> bool" where
  "isHandlerCall e = (case e of InstructorCalled r \<Rightarrow> False | HandlerCalled r \<Rightarrow> True)"

definition instructorCalls :: "'r event list \<Rightarrow> nat" where
  "instructorCalls tr = length (filter isInstructorCall tr)"

definition handlerCalls :: "'r event list \<Rightarrow> nat" where
  "handlerCalls tr = length (filter isHandlerCall tr)"

definition DefaultInstructor :: "'r WalkReferencesInstructor" where
  "DefaultInstructor tr ref = Inr WalkInstructionHandle"

text \<open>
  \<^verbatim>\<open>types.WalkReferencesOptions\<close>. A nil \<^verbatim>\<open>Patterns\<close> slice and a nil \<^verbatim>\<open>Instructor\<close> are
  \<open>None\<close>; of \<^verbatim>\<open>Fields\<close> only the length is tested, so the nil slice is the empty list.
  \<^verbatim>\<open>GitReferenceField\<close> is a string type, \<^verbatim>\<open>MaxWalkDistance\<close> an \<^verbatim>\<open>int32\<close> (the loop counter runs
  from 0 up to it and cannot overflow), \<^verbatim>\<open>Order\<close> an integer enum.
\<close>

record 'r WalkReferencesOptions =
  Patterns :: "string list option"
  Fields :: "string list"
  Instructor :: "'r WalkReferencesInstructor option"
  Sort :: string
  Order :: int
  MaxWalkDistance :: int

definition GitReferenceFieldRefName :: string where
  "GitReferenceFieldRefName = ''refname''"

definition GitReferenceFieldObjectName :: string where
  "GitReferenceFieldObjectName = ''objectname''"

definition MaxInt32 :: int where
  "MaxInt32 = 2147483647"

text \<open>
  The parser of the gitea library (\<^verbatim>\<open>foreachref.Parser\<close>) scans the pipe record by record.
  Its state is what is still to be scanned, each item a raw record or the error of
  parsing a malformed one, the error the scanner ends with (the one the producer closed
  the pipe with), and the error \<^verbatim>\<open>Err()\<close> reports. \<^verbatim>\<open>Next()\<close> returns the next record; it
  returns nil at the end of the stream, and at a malformed record, whose error it keeps.
  \<^verbatim>\<open>Err()\<close> reports the parse error only: the scanner's error is not consulted.
\<close>

record 'raw Parser =
  pending :: "(error + 'raw) list"
  scannerError :: "error option"
  parserError :: "error option"

definition Next :: "'raw Parser \<Rightarrow> 'raw option \<times> 'raw Parser" where
  "Next p =
     (case pending p of
        [] \<Rightarrow> (None, p)
      | Inl err # xs \<Rightarrow> (None, p\<lparr>pending := xs, parserError := Some err\<rparr>)
      | Inr rawRef # xs \<Rightarrow> (Some rawRef, p\<lparr>pending := xs\<rparr>))"

definition Err :: "'raw Parser \<Rightarrow> error option" where
  "Err p = parserError p"

text \<open>
  The functions of the package that other files declare: \<^verbatim>\<open>mapGiteaRawRef\<close>,
  \<^verbatim>\<open>processGiteaErrorf\<close> and \<^verbatim>\<open>mapToGiteaReferenceSortingArgument\<close>; and the producer, the
  goroutine that runs \<^verbatim>\<open>git for-each-ref\<close> with the format of the fields, the sort
  argument, \<^verbatim>\<open>--count\<close>, \<^verbatim>\<open>--ignore-case\<close> and the patterns and writes to the pipe: from the
  directory, the fields, the sort argument, the count and the patterns to the items of
  the stream and the error the pipe is closed with.
\<close>

record ('raw, 'r) Adapter =
  mapGiteaRawRef :: "'raw \<Rightarrow> error + 'r"
  processGiteaErrorf :: "error \<Rightarrow> string \<Rightarrow> error"
  mapToGiteaReferenceSortingArgument :: "string \<Rightarrow> int \<Rightarrow> string"
  forEachRef :: "string \<Rightarrow> string list \<Rightarrow> string \<Rightarrow> int \<Rightarrow> string list
                   \<Rightarrow> (error + 'raw) list \<times> error option"

text \<open>
  The loop of \<^verbatim>\<open>walkGiteaReferenceParser\<close>, from counter \<open>i\<close>: the error it returns early
  with, if any, the parser and the calls made. Calling a nil instructor panics.
\<close>

function walkLoop ::
  "('raw, 'r) Adapter \<Rightarrow> 'r WalkReferencesHandler \<Rightarrow> 'r WalkReferencesOptions \<Rightarrow> int
     \<Rightarrow> 'raw Parser \<Rightarrow> 'r event list \<Rightarrow> error option \<times> 'raw Parser \<times> 'r event list" where
  "walkLoop g handler opts i parser tr =
     (if i < MaxWalkDistance opts then
        (case Next parser of
           (None, parser1) \<Rightarrow> (None, parser1, tr)
         | (Some rawRef, parser1) \<Rightarrow>
             (case mapGiteaRawRef g rawRef of
                Inl err \<Rightarrow> (Some err, parser1, tr)
              | Inr ref \<Rightarrow>
                  (case Instructor opts of
                     None \<Rightarrow> (Some (Panic ''nil instructor''), parser1, tr)
                   | Some instructor \<Rightarrow>
                       (case instructor tr ref of
                          Inl err \<Rightarrow>
                            (Some (Wrapped ''error getting instruction'' err), parser1,
                             tr @ [InstructorCalled ref])
                        | Inr instruction \<Rightarrow>
                            if instruction = WalkInstructionSkip
                            then walkLoop g handler opts (i + 1) parser1
                                   (tr @ [InstructorCalled ref])
                            else if instruction = WalkInstructionStop
                            then (None, parser1, tr @ [InstructorCalled ref])
                            else
                              (case handler (tr @ [InstructorCalled ref]) ref of
                                 Some err \<Rightarrow>
                                   (Some (Wrapped ''error handling reference'' err), parser1,
                                    tr @ [InstructorCalled ref, HandlerCalled ref])
                               | None \<Rightarrow>
                                   walkLoop g handler opts (i + 1) parser1
                                     (tr @ [InstructorCalled ref, HandlerCalled ref]))))))
      else (None, parser, tr))"
  by pat_completeness auto
termination
  by (relation "measure (\<lambda>(g, handler, opts, i, parser, tr). nat (MaxWalkDistance opts - i))") auto

declare walkLoop.simps [simp del]

definition walkGiteaReferenceParser ::
  "('raw, 'r) Adapter \<Rightarrow> 'raw Parser \<Rightarrow> 'r WalkReferencesHandler \<Rightarrow> 'r WalkReferencesOptions
     \<Rightarrow> error option \<times> 'r event list" where
  "walkGiteaReferenceParser g parser handler opts =
     (case walkLoop g handler opts 0 parser [] of
        (Some err, parser1, tr) \<Rightarrow> (Some err, tr)
      | (None, parser1, tr) \<Rightarrow>
          (case Err parser1 of
             Some err \<Rightarrow>
               (Some (processGiteaErrorf g err ''failed to parse reference walk output''), tr)
           | None \<Rightarrow> (None, tr)))"

text \<open>
  The back-filling at the start of \<^verbatim>\<open>WalkReferences\<close>. \<^verbatim>\<open>opts\<close> is a pointer: the assignments
  write into the caller's options, and \<open>backfill\<close> is that object after them.
\<close>

definition backfill :: "'r WalkReferencesOptions \<Rightarrow> 'r WalkReferencesOptions" where
  "backfill opts =
     (let o1 = (if Instructor opts = None then opts\<lparr>Instructor := Some DefaultInstructor\<rparr>
                else opts);
          o2 = (if length (Fields o1) = 0
                then o1\<lparr>Fields := [GitReferenceFieldRefName, GitReferenceFieldObjectName]\<rparr>
                else o1);
          o3 = (if MaxWalkDistance o2 \<le> 0 then o2\<lparr>MaxWalkDistance := MaxInt32\<rparr> else o2);
          o4 = (if Patterns o3 = None then o3\<lparr>Patterns := Some []\<rparr> else o3);
          o5 = (if Sort o4 = [] then o4\<lparr>Sort := GitReferenceFieldRefName\<rparr> else o4)
      in o5)"

text \<open>
  \<^verbatim>\<open>Adapter.WalkReferences\<close>: the error, the caller's options as the call leaves them, and
  the calls made to the instructor and the handler.
\<close>

definition WalkReferences ::
  "('raw, 'r) Adapter \<Rightarrow> string \<Rightarrow> 'r WalkReferencesHandler \<Rightarrow> 'r WalkReferencesOptions
     \<Rightarrow> error option \<times> 'r WalkReferencesOptions \<times> 'r event list" where
  "WalkReferences g repoPath handler opts =
     (let opts1 = backfill opts;
          sortArg = mapToGiteaReferenceSortingArgument g (Sort opts1) (Order opts1);
          rawFields = Fields opts1;
          patterns = (case Patterns opts1 of None \<Rightarrow> [] | Some ps \<Rightarrow> ps);
          stream = forEachRef g repoPath rawFields sortArg (MaxWalkDistance opts1) patterns;
          parser = \<lparr>pending = fst stream, scannerError = snd stream, parserError = None\<rparr>
      in case walkGiteaReferenceParser g parser handler opts1 of
           (err, tr) \<Rightarrow> (err, opts1, tr))"

text \<open>The references the handler was called with, in order.\<close>

primrec handled :: "'r event list \<Rightarrow> 'r list" where
  "handled [] = []"
| "handled (e # es) =
     (case e of InstructorCalled r \<Rightarrow> handled es | HandlerCalled r \<Rightarrow> r # handled es)"

text \<open>
  The calls of a walk that has handled the records \<open>rs\<close>, each converted by \<open>m\<close>: for
  every record the call of the instructor, then the call of the handler.
\<close>

definition walked :: "('raw \<Rightarrow> 'r) \<Rightarrow> 'raw list \<Rightarrow> 'r event list" where
  "walked m rs = concat (map (\<lambda>x. [InstructorCalled (m x), HandlerCalled (m x)]) rs)"

section \<open>Concrete inputs\<close>

text \<open>
  Inputs to run the definitions on. The collaborators are small stand-ins: a repository
  with three branches whose raw records are the reference names, an access check that
  admits everyone, a store that keeps what it is given.
\<close>

definition demoInput :: ReportInput where
  "demoInput =
     \<lparr>CheckUID = ''ci_build'', Status = ''SUCCESS'', Summary = ''passed'',
      Link = ''https://ci/1'',
      Payload = \<lparr>Version = ''1'', Kind = ''external'', Data = ''[1]''\<rparr>\<rparr>"

definition demoStatuses :: "string list" where
  "demoStatuses = [''pending'', ''running'', ''success'', ''failure'', ''error'']"

definition demoController :: "(string, string) Controller" where
  "demoController =
     \<lparr>getRepoCheckAccess =
        (\<lambda>session repoRef permission.
           Inr \<lparr>Repo_ID = 1, Repo_UID = ''repo'', Repo_GitUID = ''git-1''\<rparr>),
      GetCommit = (\<lambda>repoUID sha. None),
      Upsert = Inr,
      StatusSanitize = Sanitize demoStatuses,
      KindSanitize = Sanitize [CheckPayloadKindExternal],
      ValidateCommitSHA = validSHARegex,
      NowUnixMilli = 1000,
      MarshalMetadata = (\<lambda>metadata. ''{}''),
      PrincipalID = (\<lambda>principal. 7),
      ToPrincipalInfo = (\<lambda>principal. principal)\<rparr>"

text \<open>
  A git whose answers are scripted, over the log of the command lines run: it returns
  the error the script gives for the command line and appends the command line to the
  log. It is no model of git: it lets \<^verbatim>\<open>UpdateRef\<close> run and shows what was issued.
\<close>

definition scriptedGit :: "(string list \<Rightarrow> RunStdError option) \<Rightarrow> string list list git" where
  "scriptedGit answer log dir args = (([], answer args), log @ [args])"

definition shaA :: string where
  "shaA = ''aaaaaaaaaaaaaaaaaaaaaaaaaaaaaaaaaaaaaaaa''"

definition shaB :: string where
  "shaB = ''bbbbbbbbbbbbbbbbbbbbbbbbbbbbbbbbbbbbbbbb''"

definition demoAdapter :: "(string, string) Adapter" where
  "demoAdapter =
     \<lparr>mapGiteaRawRef = Inr,
      processGiteaErrorf = (\<lambda>err msg. Wrapped msg err),
      mapToGiteaReferenceSortingArgument = (\<lambda>field order. field),
      forEachRef =
        (\<lambda>dir fields sortArg count patterns.
           (take (nat count) [Inr ''refs/heads/a'', Inr ''refs/heads/b'', Inr ''refs/heads/c''],
            None))\<rparr>"

definition demoParser :: "string Parser" where
  "demoParser =
     \<lparr>pending = [Inr ''refs/heads/a'', Inr ''refs/heads/b'', Inr ''refs/heads/c''],
      scannerError = None, parserError = None\<rparr>"

text \<open>
  Two instructors: one says Handle for its first \<open>k\<close> calls and Stop from then on,
  whatever the reference; the other decides by the reference alone and says Stop at one
  reference.
\<close>

definition stopAfter :: "nat \<Rightarrow> 'r WalkReferencesInstructor" where
  "stopAfter k tr ref =
     (if instructorCalls tr < k then Inr WalkInstructionHandle else Inr WalkInstructionStop)"

definition stopAt :: "'r \<Rightarrow> 'r WalkReferencesInstructor" where
  "stopAt r tr ref = (if ref = r then Inr WalkInstructionStop else Inr WalkInstructionHandle)"

definition unsetOptions :: "string WalkReferencesOptions" where
  "unsetOptions =
     \<lparr>Patterns = None, Fields = [], Instructor = None, Sort = [], Order = 0,
      MaxWalkDistance = 0\<rparr>"

section \<open>Properties of the SHA constructors\<close>

text \<open>
  A string whose first byte starts none of the sequences is left as it is; a string of
  hex digits is therefore not trimmed, and it is ASCII and in lower case already.
\<close>

lemma trimLeftSeqs_no_lead:
  assumes "\<forall>ws\<in>set seqs. ws \<noteq> [] \<longrightarrow> hd ws \<noteq> c"
  shows "trimLeftSeqs seqs (c # cs) = c # cs"
proof -
  have "\<not> (\<exists>ws. ws \<in> set seqs \<and> ws \<noteq> [] \<and> take (length ws) (c # cs) = ws)"
  proof
    assume "\<exists>ws. ws \<in> set seqs \<and> ws \<noteq> [] \<and> take (length ws) (c # cs) = ws"
    then obtain ws where a: "ws \<in> set seqs" "ws \<noteq> []"
      and t: "take (length ws) (c # cs) = ws" by blast
    from a(2) obtain w wt where w: "ws = w # wt" by (cases ws) auto
    with t have "w = c" by simp
    with a w assms show False by auto
  qed
  then have "find (\<lambda>ws. ws \<noteq> [] \<and> take (length ws) (c # cs) = ws) seqs = None"
    by (simp add: find_None_iff)
  then show ?thesis by (subst trimLeftSeqs.simps) simp
qed

lemma trimLeftSeqs_Nil: "trimLeftSeqs seqs [] = []"
proof -
  have "find (\<lambda>ws. ws \<noteq> [] \<and> take (length ws) [] = ws) seqs = None"
    by (auto simp: find_None_iff)
  then show ?thesis by (subst trimLeftSeqs.simps) simp
qed

lemma TrimSpace_Nil: "TrimSpace [] = []"
  by (simp add: TrimSpace_def trimLeftSeqs_Nil)

lemma hexDigit_no_space_lead:
  "hexDigit c \<Longrightarrow> \<forall>ws\<in>set spaceRunes. ws \<noteq> [] \<longrightarrow> hd ws \<noteq> c"
  by (auto simp: hexDigit_def spaceRunes_def)

lemma hexDigit_no_space_tail:
  "hexDigit c \<Longrightarrow> \<forall>ws\<in>set (map rev spaceRunes). ws \<noteq> [] \<longrightarrow> hd ws \<noteq> c"
  by (auto simp: hexDigit_def spaceRunes_def)

lemma hexDigit_ascii: "hexDigit c \<Longrightarrow> isASCII c"
  by (auto simp: hexDigit_def isASCII_def)

lemma hexDigit_lower: "hexDigit c \<Longrightarrow> lowerChar c = c"
  apply (simp add: hexDigit_def)
  apply (elim disjE)
  apply (simp_all add: lowerChar_def)
  done

lemma TrimSpace_hex:
  assumes h: "list_all hexDigit v"
  shows "TrimSpace v = v"
proof -
  have a: "trimLeftSeqs spaceRunes v = v"
  proof (cases v)
    case Nil then show ?thesis by (simp add: trimLeftSeqs_Nil)
  next
    case (Cons c cs)
    with h have "hexDigit c" by simp
    then show ?thesis unfolding Cons by (intro trimLeftSeqs_no_lead hexDigit_no_space_lead)
  qed
  have b: "trimLeftSeqs (map rev spaceRunes) (rev v) = rev v"
  proof (cases "rev v")
    case Nil then show ?thesis by (simp add: trimLeftSeqs_Nil)
  next
    case (Cons c cs)
    then have "c \<in> set v" by (metis list.set_intros(1) set_rev)
    with h have "hexDigit c" by (simp add: list_all_iff)
    then show ?thesis unfolding Cons by (intro trimLeftSeqs_no_lead hexDigit_no_space_tail)
  qed
  show ?thesis by (simp add: TrimSpace_def a b)
qed

lemma ToLower_hex: "list_all hexDigit v \<Longrightarrow> ToLower u v = v"
proof -
  assume h: "list_all hexDigit v"
  then have "list_all isASCII v" by (induction v) (auto simp: hexDigit_ascii)
  moreover from h have "map lowerChar v = v" by (induction v) (auto simp: hexDigit_lower)
  ultimately show ?thesis by (simp add: ToLower_def)
qed

lemma New_valid: "validSHARegex v \<Longrightarrow> New u v = Inr \<lparr>str = v\<rparr>"
  by (simp add: New_def Let_def validSHARegex_def TrimSpace_hex ToLower_hex)

lemma ToLower_Nil: "ToLower u [] = []"
  by (simp add: ToLower_def)

lemma New_empty: "New u [] = Inl (InvalidSHA [])"
  by (simp add: New_def TrimSpace_Nil ToLower_Nil validSHARegex_def)

lemma Nil_SHA_value: "Nil_SHA u = Inr \<lparr>str = ''0000000000000000000000000000000000000000''\<rparr>"
  by (simp add: Nil_SHA_def Must_def New_valid validSHARegex_def hexDigit_def)

lemma demo_trim_xyz: "TrimSpace ''xyz'' = ''xyz''"
  by (simp add: TrimSpace_def trimLeftSeqs_no_lead spaceRunes_def)

lemma demo_lower_xyz: "ToLower u ''xyz'' = ''xyz''"
  by (simp add: ToLower_def isASCII_def lowerChar_def)

lemma demo_New_xyz: "New u ''xyz'' = Inl (InvalidSHA ''xyz'')"
  by (simp add: New_def demo_trim_xyz demo_lower_xyz validSHARegex_def)

lemma demo_trim_ABCD: "TrimSpace '' ABCD '' = ''ABCD''"
  by (simp add: TrimSpace_def trimLeftSeqs.simps spaceRunes_def)

lemma demo_trim_nbsp: "TrimSpace ([CHR 0xC2, CHR 0xA0] @ ''abcd'' @ [CHR 0xE2, CHR 0x80, CHR 0x83, CHR 0x0A]) = ''abcd''"
  by (simp add: TrimSpace_def trimLeftSeqs.simps spaceRunes_def)

lemma demo_lower_ABCD: "ToLower u ''ABCD'' = ''abcd''"
  by (simp add: ToLower_def isASCII_def lowerChar_def)

text \<open>
  C9, as stated, fails: \<^verbatim>\<open>New("")\<close> does not succeed. The empty string has fewer than four
  characters, so \<^verbatim>\<open>validSHARegex\<close> rejects it and \<^verbatim>\<open>New\<close> returns the invalid-format error
  instead of the empty value.
\<close>

theorem New_empty_string_rejected:
  "\<forall>unicodeLower. New unicodeLower '''' = Inl (InvalidSHA '''') \<and> New unicodeLower '''' \<noteq> Inr None_SHA"
  by (simp add: New_empty)

text \<open>
  C9, amended: constructing a SHA from the empty string fails with the invalid-format
  error; the dedicated empty value is the package variable \<^verbatim>\<open>None\<close> (the zero struct), whose
  \<^verbatim>\<open>String()\<close> is the empty string and whose \<^verbatim>\<open>IsEmpty()\<close> is true; \<^verbatim>\<open>Nil\<close> is the SHA of
  forty zeroes, it is nil and not empty, and \<^verbatim>\<open>None\<close> is not nil, so the two values are
  distinct.
\<close>

theorem empty_value_is_None_not_New:
  "New unicodeLower '''' = Inl (InvalidSHA '''')
   \<and> String None_SHA = '''' \<and> IsEmpty None_SHA \<and> \<not> IsNil None_SHA
   \<and> (\<exists>n. Nil_SHA unicodeLower = Inr n \<and> \<not> IsEmpty n \<and> IsNil n \<and> \<not> Equal n None_SHA)"
  by (simp add: New_empty Nil_SHA_value String_def None_SHA_def IsEmpty_def IsNil_def
      nilRegex_def Equal_def)

section \<open>Properties of Validate\<close>

lemma matcherCheckUID_nonempty: "matcherCheckUID s \<Longrightarrow> s \<noteq> []"
  by (auto simp: matcherCheckUID_def)

lemma Validate_error_is_BadRequest:
  "fst (Validate S K inp) = Some err \<Longrightarrow> \<exists>msg. err = BadRequest msg"
  by (auto simp: Validate_def Let_def split: prod.splits if_splits)

lemma Validate_never_writes_Status: "Status (snd (Validate S K inp)) = Status inp"
  by (simp add: Validate_def Let_def split: prod.splits)

lemma demo_sanitize_status: "Sanitize demoStatuses ''SUCCESS'' = (''success'', True)"
  by (simp add: Sanitize_def demoStatuses_def lowerChar_def)

lemma demo_sanitize_kind: "Sanitize [''external''] ''external'' = (''external'', True)"
  by (simp add: Sanitize_def lowerChar_def)

lemma demo_uid: "matcherCheckUID ''ci_build''"
  by (simp add: matcherCheckUID_def uidFirstChar_def uidRestChar_def)

lemma demo_Validate:
  "Validate (Sanitize demoStatuses) (Sanitize [CheckPayloadKindExternal]) demoInput =
     (None, demoInput\<lparr>Payload := \<lparr>Version = [], Kind = ''external'', Data = ''{}''\<rparr>\<rparr>)"
  by (simp add: Validate_def demoInput_def demo_sanitize_status demo_sanitize_kind demo_uid
      CheckPayloadKindExternal_def)



text \<open>
  C10: for every report input whose payload kind sanitizes to external and whose link is
  empty, \<^verbatim>\<open>Validate\<close> returns a BadRequest; and on the error path of the missing link,
  which is the one taken once the check UID and the status have passed, the input has
  been written before the return: the payload kind holds its sanitized value, the
  payload version is the empty string and the payload data is the two bytes \<open>{}\<close>.
\<close>

theorem Validate_external_without_link:
  assumes "K (Kind (Payload inp)) = (CheckPayloadKindExternal, True)" and "Link inp = []"
  shows "(\<exists>msg. fst (Validate S K inp) = Some (BadRequest msg))
     \<and> (matcherCheckUID (CheckUID inp) \<and> snd (S (Status inp)) \<longrightarrow>
          Validate S K inp =
            (Some (BadRequest ''Link is missing''),
             inp\<lparr>Payload := \<lparr>Version = [], Kind = CheckPayloadKindExternal, Data = ''{}''\<rparr>\<rparr>))"
  using assms by (auto simp: Validate_def Let_def matcherCheckUID_nonempty split: prod.splits)

theorem Validate_external_without_link_witness:
  "Validate (Sanitize demoStatuses) (Sanitize [CheckPayloadKindExternal]) (demoInput\<lparr>Link := []\<rparr>) =
     (Some (BadRequest ''Link is missing''),
      \<lparr>CheckUID = ''ci_build'', Status = ''SUCCESS'', Summary = ''passed'', Link = [],
       Payload = \<lparr>Version = [], Kind = ''external'', Data = ''{}''\<rparr>\<rparr>)
   \<and> Payload (demoInput\<lparr>Link := []\<rparr>) = \<lparr>Version = ''1'', Kind = ''external'', Data = ''[1]''\<rparr>"
proof -
  have k: "Sanitize [CheckPayloadKindExternal] (Kind (Payload (demoInput\<lparr>Link := []\<rparr>)))
             = (CheckPayloadKindExternal, True)"
    by (simp add: demoInput_def demo_sanitize_kind CheckPayloadKindExternal_def)
  have l: "Link (demoInput\<lparr>Link := []\<rparr>) = []" by simp
  have u: "matcherCheckUID (CheckUID (demoInput\<lparr>Link := []\<rparr>))
           \<and> snd (Sanitize demoStatuses (Status (demoInput\<lparr>Link := []\<rparr>)))"
    by (simp add: demoInput_def demo_uid demo_sanitize_status)
  show ?thesis
    using k l u
      Validate_external_without_link
        [where K = "Sanitize [CheckPayloadKindExternal]" and inp = "demoInput\<lparr>Link := []\<rparr>"
           and S = "Sanitize demoStatuses"]
    by (simp add: demoInput_def CheckPayloadKindExternal_def)
qed

section \<open>Properties of Report\<close>

text \<open>
  C7: for every call to \<^verbatim>\<open>Report\<close> with a commit SHA that fails the format check, the only
  collaborator called is the access check: no commit is resolved and nothing is written
  to the store. The call fails; once access is granted the failure is a BadRequest: the
  one of \<^verbatim>\<open>Validate\<close> if the input is invalid (validation runs first), and otherwise the
  BadRequest of the format check, which therefore runs after authorization and
  validation and before the commit is resolved.
\<close>

theorem Report_rejects_malformed_sha_before_backend:
  assumes "\<not> ValidateCommitSHA c commitSHA"
  shows "snd (snd (Report c session repoRef commitSHA inp metadata))
           = [AccessChecked repoRef PermissionCommitCheckReport]
     \<and> \<not> list_ex isBackendCall (snd (snd (Report c session repoRef commitSHA inp metadata)))
     \<and> (\<exists>err. fst (Report c session repoRef commitSHA inp metadata) = Inl err)
     \<and> (\<forall>repo. getRepoCheckAccess c session repoRef PermissionCommitCheckReport = Inr repo \<longrightarrow>
          (\<exists>msg. fst (Report c session repoRef commitSHA inp metadata) = Inl (BadRequest msg))
          \<and> (\<forall>errValidate. fst (Validate (StatusSanitize c) (KindSanitize c) inp) = Some errValidate
                \<longrightarrow> fst (Report c session repoRef commitSHA inp metadata) = Inl errValidate)
          \<and> (fst (Validate (StatusSanitize c) (KindSanitize c) inp) = None
                \<longrightarrow> fst (Report c session repoRef commitSHA inp metadata)
                      = Inl (BadRequest ''invalid commit SHA provided'')))"
proof (cases "getRepoCheckAccess c session repoRef PermissionCommitCheckReport")
  case (Inl err)
  then show ?thesis by (simp add: Report_def isBackendCall_def)
next
  case (Inr repo)
  obtain e in1 where v: "Validate (StatusSanitize c) (KindSanitize c) inp = (e, in1)"
    by (cases "Validate (StatusSanitize c) (KindSanitize c) inp") auto
  show ?thesis
  proof (cases e)
    case None
    with Inr v assms show ?thesis by (simp add: Report_def isBackendCall_def)
  next
    case (Some ev)
    with v have "fst (Validate (StatusSanitize c) (KindSanitize c) inp) = Some ev" by simp
    then obtain msg where "ev = BadRequest msg" using Validate_error_is_BadRequest by blast
    with Inr v Some show ?thesis by (simp add: Report_def isBackendCall_def)
  qed
qed

lemma demo_invalid_sha: "\<not> validSHARegex ''xyz''"
  by (simp add: validSHARegex_def)

theorem Report_rejects_malformed_sha_before_backend_witness:
  "\<not> ValidateCommitSHA demoController ''xyz''
   \<and> Report demoController \<lparr>Principal = ''admin''\<rparr> ''repo'' ''xyz'' demoInput [] =
       (Inl (BadRequest ''invalid commit SHA provided''),
        demoInput\<lparr>Payload := \<lparr>Version = [], Kind = ''external'', Data = ''{}''\<rparr>\<rparr>,
        [AccessChecked ''repo'' PermissionCommitCheckReport])"
proof -
  have h: "\<not> ValidateCommitSHA demoController ''xyz''"
    by (simp add: demoController_def demo_invalid_sha)
  have a: "getRepoCheckAccess demoController \<lparr>Principal = ''admin''\<rparr> ''repo'' PermissionCommitCheckReport
             = Inr \<lparr>Repo_ID = 1, Repo_UID = ''repo'', Repo_GitUID = ''git-1''\<rparr>"
    by (simp add: demoController_def)
  have v: "Validate (StatusSanitize demoController) (KindSanitize demoController) demoInput =
     (None, demoInput\<lparr>Payload := \<lparr>Version = [], Kind = ''external'', Data = ''{}''\<rparr>\<rparr>)"
    by (simp add: demoController_def demo_Validate)
  have i: "snd (Report demoController \<lparr>Principal = ''admin''\<rparr> ''repo'' ''xyz'' demoInput [])
      = (demoInput\<lparr>Payload := \<lparr>Version = [], Kind = ''external'', Data = ''{}''\<rparr>\<rparr>,
         snd (snd (Report demoController \<lparr>Principal = ''admin''\<rparr> ''repo'' ''xyz'' demoInput [])))"
    by (simp add: Report_def a v h)
  show ?thesis
    using Report_rejects_malformed_sha_before_backend
      [OF h, of "\<lparr>Principal = ''admin''\<rparr>" "''repo''" demoInput "[]"] h a v i
    by (simp add: prod_eq_iff)
qed

section \<open>Properties of getRef and UpdateRef\<close>

text \<open>
  C6: for every reference name, \<^verbatim>\<open>getRef\<close> follows the table: raw is passed through,
  a branch name gets the branch prefix, a tag name the tag prefix, a pull-request head is
  \<open>refs/pullreq/<id>/head\<close>, a pull-request merge is \<open>refs/pullreq/<id>/merge\<close>, and any
  other reference type is rejected with the invalid-argument error.
\<close>

theorem getRef_table:
  "getRef refName RefTypeRaw = Inr refName
   \<and> getRef refName RefTypeBranch = Inr (BranchPrefix @ refName)
   \<and> getRef refName RefTypeTag = Inr (TagPrefix @ refName)
   \<and> getRef refName RefTypePullReqHead = Inr (''refs/pullreq/'' @ refName @ ''/head'')
   \<and> getRef refName RefTypePullReqMerge = Inr (''refs/pullreq/'' @ refName @ ''/merge'')
   \<and> getRef refName RefTypeOther = Inl ErrInvalidArgument"
  by (simp add: refPullReqPrefix_def refPullReqHeadSuffix_def refPullReqMergeSuffix_def)

theorem getRef_table_witness:
  "getRef ''main'' RefTypeBranch = Inr ''refs/heads/main''
   \<and> getRef ''v1'' RefTypeTag = Inr ''refs/tags/v1''
   \<and> getRef ''7'' RefTypePullReqHead = Inr ''refs/pullreq/7/head''
   \<and> getRef ''7'' RefTypePullReqMerge = Inr ''refs/pullreq/7/merge''
   \<and> getRef ''HEAD'' RefTypeRaw = Inr ''HEAD''
   \<and> getRef ''main'' RefTypeOther = Inl ErrInvalidArgument"
  using getRef_table [of "''main''"] getRef_table [of "''v1''"] getRef_table [of "''7''"]
    getRef_table [of "''HEAD''"]
  by (simp add: BranchPrefix_def TagPrefix_def)

text \<open>
  What \<^verbatim>\<open>UpdateRef\<close> does, for every way of running git: a reference type outside the
  table is rejected before any command is run; otherwise one command is run, with the old
  value as its last argument exactly when it is not empty, and its outcome is passed on,
  exit code 128 as \<^verbatim>\<open>ErrNotFound\<close>.
\<close>

lemma UpdateRef_rejected:
  assumes "getRef refName refType = Inl errRef"
  shows "UpdateRef git w repoPath refName refType newValue oldValue = (Some errRef, w)"
  using assms by (simp add: UpdateRef_def)

lemma UpdateRef_command:
  assumes "getRef refName refType = Inr ref"
  shows "UpdateRef git w repoPath refName refType newValue oldValue =
     (case git w repoPath
             (if oldValue \<noteq> [] then [''update-ref'', ref, newValue, oldValue]
              else [''update-ref'', ref, newValue]) of
        ((out, None), w') \<Rightarrow> (None, w')
      | ((out, Some err), w') \<Rightarrow>
          (if fst err = Some 128 then Some ErrNotFound
           else Some (CommandFailed (fst err) (snd err)), w'))"
  using assms by (simp add: UpdateRef_def IsExitCode_def Let_def split: prod.splits option.splits)

text \<open>
  C1: for every reference name, reference type, new value and expected old value,
  \<^verbatim>\<open>UpdateRef\<close> rejects a type outside the table without running a command, and otherwise
  runs one \<^verbatim>\<open>git update-ref\<close>: the conditional form, which carries the old value, when the
  old value is not empty, and the unconditional form when it is empty. It succeeds
  exactly when the command does, reports exit code 128 as \<^verbatim>\<open>ErrNotFound\<close> and any other
  failure as the failure of the command. The comparison itself is git's: \<open>currentIsOld\<close>
  stands for "the current value of the reference is the expected old value", and for
  every git whose conditional \<^verbatim>\<open>update-ref\<close> dies with exit code 128 when that does not
  hold, \<^verbatim>\<open>UpdateRef\<close> succeeds only if it holds and returns \<^verbatim>\<open>ErrNotFound\<close> when it does not.
\<close>

theorem UpdateRef_compare_and_swap:
  "(\<forall>errRef. getRef refName refType = Inl errRef \<longrightarrow>
      UpdateRef git w repoPath refName refType newValue oldValue = (Some errRef, w))
   \<and> (\<forall>ref. getRef refName refType = Inr ref \<longrightarrow>
        UpdateRef git w repoPath refName refType newValue oldValue =
          (case git w repoPath
                  (if oldValue \<noteq> [] then [''update-ref'', ref, newValue, oldValue]
                   else [''update-ref'', ref, newValue]) of
             ((out, None), w') \<Rightarrow> (None, w')
           | ((out, Some err), w') \<Rightarrow>
               (if fst err = Some 128 then Some ErrNotFound
                else Some (CommandFailed (fst err) (snd err)), w'))
        \<and> (oldValue \<noteq> []
             \<and> (\<not> currentIsOld \<longrightarrow>
                  (\<exists>out msg w'. git w repoPath [''update-ref'', ref, newValue, oldValue]
                                   = ((out, Some (Some 128, msg)), w')))
            \<longrightarrow> (fst (UpdateRef git w repoPath refName refType newValue oldValue) = None
                    \<longrightarrow> currentIsOld)
                \<and> (\<not> currentIsOld
                    \<longrightarrow> fst (UpdateRef git w repoPath refName refType newValue oldValue)
                          = Some ErrNotFound)))"
proof (intro conjI allI impI)
  fix errRef assume "getRef refName refType = Inl errRef"
  then show "UpdateRef git w repoPath refName refType newValue oldValue = (Some errRef, w)"
    by (rule UpdateRef_rejected)
next
  fix ref assume "getRef refName refType = Inr ref"
  then show "UpdateRef git w repoPath refName refType newValue oldValue =
          (case git w repoPath
                  (if oldValue \<noteq> [] then [''update-ref'', ref, newValue, oldValue]
                   else [''update-ref'', ref, newValue]) of
             ((out, None), w') \<Rightarrow> (None, w')
           | ((out, Some err), w') \<Rightarrow>
               (if fst err = Some 128 then Some ErrNotFound
                else Some (CommandFailed (fst err) (snd err)), w'))"
    by (rule UpdateRef_command)
next
  fix ref
  assume r: "getRef refName refType = Inr ref"
    and h: "oldValue \<noteq> []
             \<and> (\<not> currentIsOld \<longrightarrow>
                  (\<exists>out msg w'. git w repoPath [''update-ref'', ref, newValue, oldValue]
                                   = ((out, Some (Some 128, msg)), w')))"
  have nf: "\<not> currentIsOld \<Longrightarrow>
      fst (UpdateRef git w repoPath refName refType newValue oldValue) = Some ErrNotFound"
  proof -
    assume "\<not> currentIsOld"
    with h obtain out msg w' where
      "git w repoPath [''update-ref'', ref, newValue, oldValue] = ((out, Some (Some 128, msg)), w')"
      by blast
    with h show ?thesis by (simp add: UpdateRef_command [OF r])
  qed
  { assume "fst (UpdateRef git w repoPath refName refType newValue oldValue) = None"
    with nf show currentIsOld by fastforce }
  { assume "\<not> currentIsOld"
    then show "fst (UpdateRef git w repoPath refName refType newValue oldValue) = Some ErrNotFound"
      by (rule nf) }
qed

lemma demo_getRef_main: "getRef ''main'' RefTypeBranch = Inr ''refs/heads/main''"
  by (simp add: BranchPrefix_def)

theorem UpdateRef_compare_and_swap_witness:
  "UpdateRef (scriptedGit (\<lambda>args. Some (Some 128, ''fatal: cannot lock ref''))) []
       ''/repo'' ''main'' RefTypeBranch shaB shaA
     = (Some ErrNotFound, [[''update-ref'', ''refs/heads/main'', shaB, shaA]])
   \<and> UpdateRef (scriptedGit (\<lambda>args. None)) [] ''/repo'' ''main'' RefTypeBranch shaB shaA
     = (None, [[''update-ref'', ''refs/heads/main'', shaB, shaA]])
   \<and> UpdateRef (scriptedGit (\<lambda>args. None)) [] ''/repo'' ''main'' RefTypeBranch shaB ''''
     = (None, [[''update-ref'', ''refs/heads/main'', shaB]])
   \<and> UpdateRef (scriptedGit (\<lambda>args. Some (Some 1, ''error''))) []
       ''/repo'' ''main'' RefTypeBranch shaB shaA
     = (Some (CommandFailed (Some 1) ''error''), [[''update-ref'', ''refs/heads/main'', shaB, shaA]])
   \<and> UpdateRef (scriptedGit (\<lambda>args. None)) [] ''/repo'' ''main'' RefTypeOther shaB shaA
     = (Some ErrInvalidArgument, [])"
proof -
  have a: "shaA \<noteq> []" by (simp add: shaA_def)
  have o: "getRef ''main'' RefTypeOther = Inl ErrInvalidArgument" by simp
  have g: "\<And>ans args. scriptedGit ans [] ''/repo'' args = (([], ans args), [args])"
    by (simp add: scriptedGit_def)
  show ?thesis
    using a o demo_getRef_main g
      UpdateRef_compare_and_swap
        [where git = "scriptedGit (\<lambda>args. Some (Some 128, ''fatal: cannot lock ref''))"
           and w = "[]" and repoPath = "''/repo''" and refName = "''main''"
           and refType = RefTypeBranch and newValue = shaB and oldValue = shaA
           and currentIsOld = False]
      UpdateRef_compare_and_swap
        [where git = "scriptedGit (\<lambda>args. None)"
           and w = "[]" and repoPath = "''/repo''" and refName = "''main''"
           and refType = RefTypeBranch and newValue = shaB and oldValue = shaA
           and currentIsOld = True]
      UpdateRef_compare_and_swap
        [where git = "scriptedGit (\<lambda>args. None)"
           and w = "[]" and repoPath = "''/repo''" and refName = "''main''"
           and refType = RefTypeBranch and newValue = shaB and oldValue = "''''"
           and currentIsOld = True]
      UpdateRef_compare_and_swap
        [where git = "scriptedGit (\<lambda>args. Some (Some 1, ''error''))"
           and w = "[]" and repoPath = "''/repo''" and refName = "''main''"
           and refType = RefTypeBranch and newValue = shaB and oldValue = shaA
           and currentIsOld = True]
      UpdateRef_compare_and_swap
        [where git = "scriptedGit (\<lambda>args. None)"
           and w = "[]" and repoPath = "''/repo''" and refName = "''main''"
           and refType = RefTypeOther and newValue = shaB and oldValue = shaA
           and currentIsOld = True]
    by simp
qed

section \<open>Properties of the reference walk\<close>

lemma instructorCalls_append: "instructorCalls (xs @ ys) = instructorCalls xs + instructorCalls ys"
  by (simp add: instructorCalls_def)

lemma instructorCalls_simps:
  "instructorCalls [] = 0"
  "instructorCalls (InstructorCalled r # es) = Suc (instructorCalls es)"
  "instructorCalls (HandlerCalled r # es) = instructorCalls es"
  by (simp_all add: instructorCalls_def isInstructorCall_def)

lemma handled_append: "handled (xs @ ys) = handled xs @ handled ys"
  by (induction xs) (auto split: event.splits)

lemma handlerCalls_handled: "handlerCalls tr = length (handled tr)"
  by (induction tr) (auto simp: handlerCalls_def isHandlerCall_def split: event.splits)

lemma walked_Nil: "walked m [] = []"
  by (simp add: walked_def)

lemma walked_append: "walked m (xs @ ys) = walked m xs @ walked m ys"
  by (simp add: walked_def)

lemma walked_single: "walked m [x] = [InstructorCalled (m x), HandlerCalled (m x)]"
  by (simp add: walked_def)

lemma handled_walked: "handled (walked m xs) = map m xs"
  by (induction xs) (auto simp: walked_def)

lemma instructorCalls_walked: "instructorCalls (walked m xs) = length xs"
  by (induction xs) (auto simp: walked_def instructorCalls_simps)

lemma walkLoop_instructor_bound:
  "instructorCalls (snd (snd (walkLoop g handler opts i parser tr)))
     \<le> instructorCalls tr + nat (MaxWalkDistance opts - i)"
proof (induction g handler opts i parser tr rule: walkLoop.induct)
  case (1 g handler opts i parser tr)
  show ?case
  proof (cases "i < MaxWalkDistance opts")
    case False
    then show ?thesis by (subst walkLoop.simps) simp
  next
    case True
    have step: "nat (MaxWalkDistance opts - i) = Suc (nat (MaxWalkDistance opts - (i + 1)))"
      using True by simp
    show ?thesis
      apply (subst walkLoop.simps)
      using True "1.IH"
      apply (auto simp: step instructorCalls_append instructorCalls_simps
          split: prod.splits option.splits sum.splits)
      done
  qed
qed

lemma walkGiteaReferenceParser_trace:
  "snd (walkGiteaReferenceParser g parser handler opts) = snd (snd (walkLoop g handler opts 0 parser []))"
  by (simp add: walkGiteaReferenceParser_def split: prod.splits option.splits)

lemma backfill_MaxWalkDistance:
  "MaxWalkDistance (backfill opts) = (if MaxWalkDistance opts \<le> 0 then MaxInt32 else MaxWalkDistance opts)"
  by (simp add: backfill_def Let_def)

lemma WalkReferences_trace:
  "\<exists>parser. snd (snd (WalkReferences g repoPath handler opts))
      = snd (walkGiteaReferenceParser g parser handler (backfill opts))"
  by (simp add: WalkReferences_def Let_def split: prod.splits) (metis snd_conv)

text \<open>One iteration of the loop, with \<^verbatim>\<open>Next\<close> unfolded: what concrete walks are run with.\<close>

lemma walkLoop_eval:
  "walkLoop g handler opts i parser tr =
     (if i < MaxWalkDistance opts then
        (case pending parser of
           [] \<Rightarrow> (None, parser, tr)
         | Inl perr # rest \<Rightarrow> (None, parser\<lparr>pending := rest, parserError := Some perr\<rparr>, tr)
         | Inr rawRef # rest \<Rightarrow>
             (case mapGiteaRawRef g rawRef of
                Inl err \<Rightarrow> (Some err, parser\<lparr>pending := rest\<rparr>, tr)
              | Inr ref \<Rightarrow>
                  (case Instructor opts of
                     None \<Rightarrow> (Some (Panic ''nil instructor''), parser\<lparr>pending := rest\<rparr>, tr)
                   | Some instructor \<Rightarrow>
                       (case instructor tr ref of
                          Inl err \<Rightarrow>
                            (Some (Wrapped ''error getting instruction'' err), parser\<lparr>pending := rest\<rparr>,
                             tr @ [InstructorCalled ref])
                        | Inr instruction \<Rightarrow>
                            if instruction = WalkInstructionSkip
                            then walkLoop g handler opts (i + 1) (parser\<lparr>pending := rest\<rparr>)
                                   (tr @ [InstructorCalled ref])
                            else if instruction = WalkInstructionStop
                            then (None, parser\<lparr>pending := rest\<rparr>, tr @ [InstructorCalled ref])
                            else
                              (case handler (tr @ [InstructorCalled ref]) ref of
                                 Some err \<Rightarrow>
                                   (Some (Wrapped ''error handling reference'' err), parser\<lparr>pending := rest\<rparr>,
                                    tr @ [InstructorCalled ref, HandlerCalled ref])
                               | None \<Rightarrow>
                                   walkLoop g handler opts (i + 1) (parser\<lparr>pending := rest\<rparr>)
                                     (tr @ [InstructorCalled ref, HandlerCalled ref]))))))
      else (None, parser, tr))"
  by (subst walkLoop.simps) (simp add: Next_def split: list.splits sum.splits)

lemma demo_walk_2:
  "WalkReferences demoAdapter ''/repo'' (\<lambda>tr ref. None) (unsetOptions\<lparr>MaxWalkDistance := 2\<rparr>) =
     (None,
      \<lparr>Patterns = Some [], Fields = [''refname'', ''objectname''],
       Instructor = Some DefaultInstructor, Sort = ''refname'', Order = 0, MaxWalkDistance = 2\<rparr>,
      [InstructorCalled ''refs/heads/a'', HandlerCalled ''refs/heads/a'',
       InstructorCalled ''refs/heads/b'', HandlerCalled ''refs/heads/b''])"
  by (simp add: WalkReferences_def backfill_def unsetOptions_def demoAdapter_def Let_def
      walkGiteaReferenceParser_def DefaultInstructor_def walkLoop_eval Err_def
      GitReferenceFieldRefName_def GitReferenceFieldObjectName_def numeral_2_eq_2)

lemma demo_walk_unset:
  "WalkReferences demoAdapter ''/repo'' (\<lambda>tr ref. None) unsetOptions =
     (None,
      \<lparr>Patterns = Some [], Fields = [''refname'', ''objectname''],
       Instructor = Some DefaultInstructor, Sort = ''refname'', Order = 0,
       MaxWalkDistance = 2147483647\<rparr>,
      [InstructorCalled ''refs/heads/a'', HandlerCalled ''refs/heads/a'',
       InstructorCalled ''refs/heads/b'', HandlerCalled ''refs/heads/b'',
       InstructorCalled ''refs/heads/c'', HandlerCalled ''refs/heads/c''])"
  by (simp add: WalkReferences_def backfill_def unsetOptions_def demoAdapter_def Let_def
      walkGiteaReferenceParser_def DefaultInstructor_def walkLoop_eval Err_def MaxInt32_def
      GitReferenceFieldRefName_def GitReferenceFieldObjectName_def)

text \<open>
  C8: for every walk, the instructor is called at most \<^verbatim>\<open>MaxWalkDistance\<close> times: the loop
  of \<^verbatim>\<open>walkGiteaReferenceParser\<close> runs at most that often, however many references the
  stream holds, and \<^verbatim>\<open>WalkReferences\<close> passes a distance that is set (positive) unchanged
  to the loop.
\<close>

theorem instructor_called_at_most_MaxWalkDistance_times:
  "instructorCalls (snd (walkGiteaReferenceParser g parser handler opts)) \<le> nat (MaxWalkDistance opts)
   \<and> (0 < MaxWalkDistance opts \<longrightarrow>
        instructorCalls (snd (snd (WalkReferences g repoPath handler opts)))
          \<le> nat (MaxWalkDistance opts))"
proof -
  have a: "\<And>p ops. instructorCalls (snd (walkGiteaReferenceParser g p handler ops)) \<le> nat (MaxWalkDistance ops)"
    using walkLoop_instructor_bound [of g handler _ 0 _ "[]"]
    by (simp add: walkGiteaReferenceParser_trace instructorCalls_simps)
  show ?thesis
  proof (intro conjI impI)
    show "instructorCalls (snd (walkGiteaReferenceParser g parser handler opts))
            \<le> nat (MaxWalkDistance opts)"
      by (rule a)
  next
    assume pos: "0 < MaxWalkDistance opts"
    obtain p where tr: "snd (snd (WalkReferences g repoPath handler opts))
        = snd (walkGiteaReferenceParser g p handler (backfill opts))"
      using WalkReferences_trace by blast
    have "instructorCalls (snd (snd (WalkReferences g repoPath handler opts)))
            \<le> nat (MaxWalkDistance (backfill opts))"
      unfolding tr by (rule a)
    then show "instructorCalls (snd (snd (WalkReferences g repoPath handler opts)))
            \<le> nat (MaxWalkDistance opts)"
      using pos by (simp add: backfill_MaxWalkDistance)
  qed
qed

theorem instructor_called_at_most_MaxWalkDistance_times_witness:
  "0 < MaxWalkDistance (unsetOptions\<lparr>MaxWalkDistance := 2\<rparr>)
   \<and> instructorCalls (snd (snd (WalkReferences demoAdapter ''/repo'' (\<lambda>tr ref. None)
         (unsetOptions\<lparr>MaxWalkDistance := 2\<rparr>)))) \<le> 2
   \<and> snd (snd (WalkReferences demoAdapter ''/repo'' (\<lambda>tr ref. None)
         (unsetOptions\<lparr>MaxWalkDistance := 2\<rparr>)))
       = [InstructorCalled ''refs/heads/a'', HandlerCalled ''refs/heads/a'',
          InstructorCalled ''refs/heads/b'', HandlerCalled ''refs/heads/b'']
   \<and> fst (forEachRef demoAdapter ''/repo'' [] [] 3 [])
       = [Inr ''refs/heads/a'', Inr ''refs/heads/b'', Inr ''refs/heads/c'']"
proof -
  have pos: "0 < MaxWalkDistance (unsetOptions\<lparr>MaxWalkDistance := 2\<rparr>)" by simp
  have n: "nat (MaxWalkDistance (unsetOptions\<lparr>MaxWalkDistance := 2\<rparr>)) = 2" by simp
  have f: "fst (forEachRef demoAdapter ''/repo'' [] [] 3 [])
       = [Inr ''refs/heads/a'', Inr ''refs/heads/b'', Inr ''refs/heads/c'']"
    by (simp add: demoAdapter_def)
  show ?thesis
    using pos n f
      instructor_called_at_most_MaxWalkDistance_times
        [of demoAdapter demoParser "\<lambda>tr ref. None" "unsetOptions\<lparr>MaxWalkDistance := 2\<rparr>" "''/repo''"]
    by (simp add: demo_walk_2)
qed

text \<open>
  The loop under an instructor that answers Handle at the first \<open>k\<close> records of the
  stream and Stop at the next one, started after \<open>j\<close> of them have been handled: it
  handles the records up to the \<open>k\<close>-th and stops at the one after. The instructor and the
  handler are constrained at the calls this walk makes and nowhere else.
\<close>

lemma walkLoop_handle_then_stop:
  assumes ins: "Instructor opts = Some ins"
    and k: "k < length rs"
    and conv: "\<forall>i\<le>k. mapGiteaRawRef g (rs ! i) = Inr (m (rs ! i))"
    and H: "\<forall>i<k. ins (walked m (take i rs)) (m (rs ! i)) = Inr WalkInstructionHandle"
    and S: "ins (walked m (take k rs)) (m (rs ! k)) = Inr WalkInstructionStop"
    and hd: "\<forall>i<k. handler (walked m (take i rs) @ [InstructorCalled (m (rs ! i))]) (m (rs ! i)) = None"
  shows "d = k - j \<Longrightarrow> j \<le> k \<Longrightarrow> i + int d < MaxWalkDistance opts
    \<Longrightarrow> walkLoop g handler opts i (p\<lparr>pending := map Inr (drop j rs) @ rest\<rparr>) (walked m (take j rs)) =
          (None, p\<lparr>pending := map Inr (drop (Suc k) rs) @ rest\<rparr>,
           walked m (take k rs) @ [InstructorCalled (m (rs ! k))])"
proof (induction d arbitrary: i j)
  case 0
  then have jk: "j = k" by simp
  have dr: "drop k rs = rs ! k # drop (Suc k) rs" using k by (simp add: Cons_nth_drop_Suc)
  from conv have c: "mapGiteaRawRef g (rs ! k) = Inr (m (rs ! k))" by simp
  from 0 have lt: "i < MaxWalkDistance opts" by simp
  show ?case
    by (subst walkLoop.simps) (simp add: jk dr lt Next_def c ins S)
next
  case (Suc d)
  from Suc.prems(1) have jk: "j < k" by simp
  with k have jl: "j < length rs" by simp
  have dr: "drop j rs = rs ! j # drop (Suc j) rs" using jl by (simp add: Cons_nth_drop_Suc)
  have tk: "take (Suc j) rs = take j rs @ [rs ! j]" using jl by (simp add: take_Suc_conv_app_nth)
  from conv jk have c: "mapGiteaRawRef g (rs ! j) = Inr (m (rs ! j))" by simp
  from H jk have h: "ins (walked m (take j rs)) (m (rs ! j)) = Inr WalkInstructionHandle" by simp
  from hd jk have hh: "handler (walked m (take j rs) @ [InstructorCalled (m (rs ! j))]) (m (rs ! j)) = None"
    by simp
  from Suc.prems(3) have lt: "i < MaxWalkDistance opts" by simp
  have tr: "walked m (take j rs) @ [InstructorCalled (m (rs ! j)), HandlerCalled (m (rs ! j))]
              = walked m (take (Suc j) rs)"
    by (simp add: tk walked_append walked_single)
  have IH: "walkLoop g handler opts (i + 1) (p\<lparr>pending := map Inr (drop (Suc j) rs) @ rest\<rparr>)
              (walked m (take (Suc j) rs)) =
          (None, p\<lparr>pending := map Inr (drop (Suc k) rs) @ rest\<rparr>,
           walked m (take k rs) @ [InstructorCalled (m (rs ! k))])"
  proof (rule Suc.IH)
    show "d = k - Suc j" using Suc.prems(1) by simp
    show "Suc j \<le> k" using jk by simp
    show "i + 1 + int d < MaxWalkDistance opts" using Suc.prems(3) by simp
  qed
  show ?case
    apply (subst walkLoop.simps)
    apply (simp add: dr lt Next_def c ins h hh)
    apply (simp add: tr IH)
    done
qed

text \<open>
  C2: for every walk over N references (\<open>rs\<close>, the records the stream starts with) and
  every instructor that returns Handle for the first \<open>k\<close> records (\<open>k < N\<close>) and Stop at
  the next one, the handler is called exactly \<open>k\<close> times, on the first \<open>k\<close> records and
  on no other, and the walk returns without error. The instructor may decide by the
  record alone or by what it has seen: it is constrained only at the \<open>k + 1\<close> calls the
  walk makes, and so is the handler, which returns no error on the \<open>k\<close> records it is
  given. The walk is one that reaches the record of the Stop: the records up to it
  convert, the parser is fresh and the maximal walk distance is more than \<open>k\<close>.
\<close>

theorem walk_handles_k_then_stops:
  assumes "Instructor opts = Some ins"
    and "pending parser = map Inr rs @ rest"
    and "k < length rs"
    and "parserError parser = None"
    and "\<forall>i\<le>k. mapGiteaRawRef g (rs ! i) = Inr (m (rs ! i))"
    and "\<forall>i<k. ins (walked m (take i rs)) (m (rs ! i)) = Inr WalkInstructionHandle"
    and "ins (walked m (take k rs)) (m (rs ! k)) = Inr WalkInstructionStop"
    and "\<forall>i<k. handler (walked m (take i rs) @ [InstructorCalled (m (rs ! i))]) (m (rs ! i)) = None"
    and "int k < MaxWalkDistance opts"
  shows "fst (walkGiteaReferenceParser g parser handler opts) = None
     \<and> handlerCalls (snd (walkGiteaReferenceParser g parser handler opts)) = k
     \<and> handled (snd (walkGiteaReferenceParser g parser handler opts)) = map m (take k rs)
     \<and> instructorCalls (snd (walkGiteaReferenceParser g parser handler opts)) = Suc k"
proof -
  have p: "parser\<lparr>pending := map Inr (drop 0 rs) @ rest\<rparr> = parser"
    using assms(2) by simp
  have "walkLoop g handler opts 0 (parser\<lparr>pending := map Inr (drop 0 rs) @ rest\<rparr>)
          (walked m (take 0 rs)) =
          (None, parser\<lparr>pending := map Inr (drop (Suc k) rs) @ rest\<rparr>,
           walked m (take k rs) @ [InstructorCalled (m (rs ! k))])"
    by (rule walkLoop_handle_then_stop
          [OF assms(1) assms(3) assms(5) assms(6) assms(7) assms(8)])
       (use assms(9) in simp_all)
  then have loop: "walkLoop g handler opts 0 parser [] =
          (None, parser\<lparr>pending := map Inr (drop (Suc k) rs) @ rest\<rparr>,
           walked m (take k rs) @ [InstructorCalled (m (rs ! k))])"
    by (simp only: p take_0 walked_Nil)
  have len: "min (length rs) k = k" using assms(3) by simp
  show ?thesis
    by (simp add: walkGiteaReferenceParser_def loop Err_def assms(4) handlerCalls_handled
        handled_append handled_walked instructorCalls_append instructorCalls_walked
        instructorCalls_simps len)
qed

theorem walk_handles_k_then_stops_witness:
  "walkGiteaReferenceParser demoAdapter demoParser (\<lambda>tr ref. None)
       (unsetOptions\<lparr>Instructor := Some (stopAt ''refs/heads/b''), MaxWalkDistance := MaxInt32\<rparr>)
     = (None, [InstructorCalled ''refs/heads/a'', HandlerCalled ''refs/heads/a'',
               InstructorCalled ''refs/heads/b''])
   \<and> handlerCalls (snd (walkGiteaReferenceParser demoAdapter demoParser (\<lambda>tr ref. None)
       (unsetOptions\<lparr>Instructor := Some (stopAt ''refs/heads/b''), MaxWalkDistance := MaxInt32\<rparr>))) = 1
   \<and> handlerCalls (snd (walkGiteaReferenceParser demoAdapter demoParser (\<lambda>tr ref. None)
       (unsetOptions\<lparr>Instructor := Some (stopAfter 2), MaxWalkDistance := 3\<rparr>))) = 2
   \<and> length (pending demoParser) = 3"
proof -
  have ev: "walkGiteaReferenceParser demoAdapter demoParser (\<lambda>tr ref. None)
       (unsetOptions\<lparr>Instructor := Some (stopAt ''refs/heads/b''), MaxWalkDistance := MaxInt32\<rparr>)
     = (None, [InstructorCalled ''refs/heads/a'', HandlerCalled ''refs/heads/a'',
               InstructorCalled ''refs/heads/b''])"
    by (simp add: walkGiteaReferenceParser_def demoParser_def demoAdapter_def unsetOptions_def
        MaxInt32_def walkLoop_eval stopAt_def Err_def)
  have rs: "pending demoParser = map Inr [''refs/heads/a'', ''refs/heads/b'', ''refs/heads/c''] @ []"
    by (simp add: demoParser_def)
  have h1: "handlerCalls (snd (walkGiteaReferenceParser demoAdapter demoParser (\<lambda>tr ref. None)
       (unsetOptions\<lparr>Instructor := Some (stopAt ''refs/heads/b''), MaxWalkDistance := MaxInt32\<rparr>))) = 1"
    using walk_handles_k_then_stops
      [where opts = "unsetOptions\<lparr>Instructor := Some (stopAt ''refs/heads/b''), MaxWalkDistance := MaxInt32\<rparr>"
         and ins = "stopAt ''refs/heads/b''" and k = 1 and parser = demoParser and g = demoAdapter
         and m = "\<lambda>x. x" and handler = "\<lambda>tr ref. None"
         and rs = "[''refs/heads/a'', ''refs/heads/b'', ''refs/heads/c'']" and rest = "[]"]
      rs
    by (simp add: unsetOptions_def stopAt_def demoParser_def demoAdapter_def MaxInt32_def
        less_Suc_eq_le le_Suc_eq all_conj_distrib)
  have h2: "handlerCalls (snd (walkGiteaReferenceParser demoAdapter demoParser (\<lambda>tr ref. None)
       (unsetOptions\<lparr>Instructor := Some (stopAfter 2), MaxWalkDistance := 3\<rparr>))) = 2"
    using walk_handles_k_then_stops
      [where opts = "unsetOptions\<lparr>Instructor := Some (stopAfter 2), MaxWalkDistance := 3\<rparr>"
         and ins = "stopAfter 2" and k = 2 and parser = demoParser and g = demoAdapter
         and m = "\<lambda>x. x" and handler = "\<lambda>tr ref. None"
         and rs = "[''refs/heads/a'', ''refs/heads/b'', ''refs/heads/c'']" and rest = "[]"]
      rs
    by (simp add: unsetOptions_def stopAfter_def demoParser_def demoAdapter_def
        instructorCalls_walked less_Suc_eq_le le_Suc_eq all_conj_distrib numeral_2_eq_2)
  show ?thesis using ev h1 h2 by (simp add: demoParser_def)
qed

lemma WalkReferences_options: "fst (snd (WalkReferences g repoPath handler opts)) = backfill opts"
  by (simp add: WalkReferences_def Let_def split: prod.splits)

lemma backfill_Instructor:
  "Instructor (backfill opts) = (if Instructor opts = None then Some DefaultInstructor else Instructor opts)"
  by (simp add: backfill_def Let_def)

lemma backfill_Fields:
  "Fields (backfill opts) = (if length (Fields opts) = 0
         then [GitReferenceFieldRefName, GitReferenceFieldObjectName] else Fields opts)"
  by (simp add: backfill_def Let_def)

lemma backfill_Patterns:
  "Patterns (backfill opts) = (if Patterns opts = None then Some [] else Patterns opts)"
  by (simp add: backfill_def Let_def)

lemma backfill_Sort:
  "Sort (backfill opts) = (if Sort opts = [] then GitReferenceFieldRefName else Sort opts)"
  by (simp add: backfill_def Let_def)

lemma backfill_Order: "Order (backfill opts) = Order opts"
  by (simp add: backfill_def Let_def)

text \<open>
  C3, as stated, fails: \<^verbatim>\<open>opts\<close> is a pointer and the back-filling assigns through it. A
  caller who passes options with every field unset finds, after \<^verbatim>\<open>WalkReferences\<close> has
  returned, the maximal walk distance at 2147483647, the patterns at the empty slice,
  the fields at refname and objectname, and the sort field at refname.
\<close>

theorem WalkReferences_mutates_caller_options:
  "MaxWalkDistance unsetOptions = 0
   \<and> MaxWalkDistance (fst (snd (WalkReferences demoAdapter ''/repo'' (\<lambda>tr ref. None) unsetOptions)))
       = 2147483647
   \<and> Patterns unsetOptions = None
   \<and> Patterns (fst (snd (WalkReferences demoAdapter ''/repo'' (\<lambda>tr ref. None) unsetOptions)))
       = Some []
   \<and> Fields unsetOptions = []
   \<and> Fields (fst (snd (WalkReferences demoAdapter ''/repo'' (\<lambda>tr ref. None) unsetOptions)))
       = [''refname'', ''objectname'']
   \<and> Sort unsetOptions = []
   \<and> Sort (fst (snd (WalkReferences demoAdapter ''/repo'' (\<lambda>tr ref. None) unsetOptions)))
       = ''refname''
   \<and> fst (snd (WalkReferences demoAdapter ''/repo'' (\<lambda>tr ref. None) unsetOptions)) \<noteq> unsetOptions"
  by (simp add: demo_walk_unset) (simp add: unsetOptions_def)

text \<open>
  C3, amended: back-filling writes the defaults into the options value of the caller.
  After \<^verbatim>\<open>WalkReferences\<close> has returned, every field that was unset holds its default (the
  default instructor, the fields refname and objectname, the maximal walk distance
  MaxInt32, the empty pattern list, the sort field refname) and every field that was set,
  and the order, is unchanged.
\<close>

theorem WalkReferences_backfills_caller_options:
  "Instructor (fst (snd (WalkReferences g repoPath handler opts)))
      = (if Instructor opts = None then Some DefaultInstructor else Instructor opts)
   \<and> Fields (fst (snd (WalkReferences g repoPath handler opts)))
      = (if length (Fields opts) = 0
         then [GitReferenceFieldRefName, GitReferenceFieldObjectName] else Fields opts)
   \<and> MaxWalkDistance (fst (snd (WalkReferences g repoPath handler opts)))
      = (if MaxWalkDistance opts \<le> 0 then MaxInt32 else MaxWalkDistance opts)
   \<and> Patterns (fst (snd (WalkReferences g repoPath handler opts)))
      = (if Patterns opts = None then Some [] else Patterns opts)
   \<and> Sort (fst (snd (WalkReferences g repoPath handler opts)))
      = (if Sort opts = [] then GitReferenceFieldRefName else Sort opts)
   \<and> Order (fst (snd (WalkReferences g repoPath handler opts))) = Order opts"
  unfolding WalkReferences_options
  using backfill_Instructor [of opts] backfill_Fields [of opts] backfill_MaxWalkDistance [of opts]
    backfill_Patterns [of opts] backfill_Sort [of opts] backfill_Order [of opts]
  by blast

theorem WalkReferences_backfills_caller_options_witness:
  "fst (snd (WalkReferences demoAdapter ''/repo'' (\<lambda>tr ref. None)
        (unsetOptions\<lparr>Sort := ''objectname'', MaxWalkDistance := 2\<rparr>)))
     = \<lparr>Patterns = Some [], Fields = [''refname'', ''objectname''],
        Instructor = Some DefaultInstructor, Sort = ''objectname'', Order = 0,
        MaxWalkDistance = 2\<rparr>"
  using WalkReferences_backfills_caller_options
    [of demoAdapter "''/repo''" "\<lambda>tr ref. None"
        "unsetOptions\<lparr>Sort := ''objectname'', MaxWalkDistance := 2\<rparr>"]
  by (cases "fst (snd (WalkReferences demoAdapter ''/repo'' (\<lambda>tr ref. None)
        (unsetOptions\<lparr>Sort := ''objectname'', MaxWalkDistance := 2\<rparr>)))")
     (simp add: unsetOptions_def GitReferenceFieldRefName_def GitReferenceFieldObjectName_def)

section \<open>Properties of the encodings\<close>

lemma GobDecode_stores_any_string:
  "dec data = Inr st \<Longrightarrow> GobDecode dec s data = (None, \<lparr>str = st\<rparr>)"
  by (simp add: GobDecode_def)

lemma New_result_valid: "New u v = Inr sha \<Longrightarrow> validSHARegex (str sha)"
  by (auto simp: New_def Let_def split: if_splits)

text \<open>
  Encoding then decoding gives the value back, for every codec that gives the string
  back: through gob for every SHA, through JSON for every SHA that \<^verbatim>\<open>New\<close> can build.
\<close>

lemma Gob_round_trip:
  assumes "enc (str s) = Inr data" and "dec data = Inr (str s)"
  shows "GobEncode enc s = Inr data \<and> GobDecode dec s0 data = (None, s)"
  using assms by (simp add: GobEncode_def GobDecode_def)

lemma JSON_round_trip:
  assumes "validSHARegex (str s)" and "enc (str s) = Inr data" and "dec data = Inr (str s)"
  shows "MarshalJSON enc s = Inr data \<and> UnmarshalJSON dec u s0 data = (None, s)"
  using assms by (simp add: MarshalJSON_def UnmarshalJSON_def New_valid)

text \<open>\<^verbatim>\<open>UnmarshalJSON\<close> validates the decoded string through \<^verbatim>\<open>New\<close>.\<close>

lemma UnmarshalJSON_validates:
  assumes "dec data = Inr st" and "\<not> validSHARegex (ToLower u (TrimSpace st))"
  shows "UnmarshalJSON dec u s data = (Some (InvalidSHA (ToLower u (TrimSpace st))), s)"
  using assms by (simp add: UnmarshalJSON_def New_def Let_def)

lemma demo_gob:
  "gobString ''xyz'' =
     Inr [CHR 0x06, CHR 0x0C, CHR 0x00, CHR 0x03, CHR ''x'', CHR ''y'', CHR ''z'']"
  by (simp add: gobString_def) code_simp

lemma demo_ungob:
  "ungobString [CHR 0x06, CHR 0x0C, CHR 0x00, CHR 0x03, CHR ''x'', CHR ''y'', CHR ''z'']
     = Inr ''xyz''"
  by (simp add: ungobString_def)

lemma demo_unjson: "unjsonString ([CHR 0x22] @ ''xyz'' @ [CHR 0x22]) = Inr ''xyz''"
  by (simp add: unjsonString_def jsonPlain_def)

text \<open>
  C5, where the code departs from the claim: \<^verbatim>\<open>GobDecode\<close> does not validate. The gob
  encoding of the string \<open>xyz\<close>, which \<^verbatim>\<open>New\<close> rejects, decodes without error into a SHA
  whose string is \<open>xyz\<close>; \<^verbatim>\<open>UnmarshalJSON\<close>, given the same string in JSON, fails with the
  error of \<^verbatim>\<open>New\<close> and leaves its receiver as it was.
\<close>

theorem GobDecode_accepts_invalid_sha:
  "gobString ''xyz'' =
     Inr [CHR 0x06, CHR 0x0C, CHR 0x00, CHR 0x03, CHR ''x'', CHR ''y'', CHR ''z'']
   \<and> GobDecode ungobString None_SHA
       [CHR 0x06, CHR 0x0C, CHR 0x00, CHR 0x03, CHR ''x'', CHR ''y'', CHR ''z'']
     = (None, \<lparr>str = ''xyz''\<rparr>)
   \<and> New unicodeLower ''xyz'' = Inl (InvalidSHA ''xyz'')
   \<and> UnmarshalJSON unjsonString unicodeLower None_SHA ([CHR 0x22] @ ''xyz'' @ [CHR 0x22])
     = (Some (InvalidSHA ''xyz''), None_SHA)"
  using demo_unjson demo_gob
  by (simp add: GobDecode_def demo_ungob demo_New_xyz UnmarshalJSON_def)

section \<open>Further properties\<close>

lemma demo_valid_abcd: "validSHARegex ''abcd''"
  by (simp add: validSHARegex_def hexDigit_def)

lemma demo_json_abcd: "jsonString ''abcd'' = Inr ([CHR 0x22] @ ''abcd'' @ [CHR 0x22])"
  by (simp add: jsonString_def jsonPlain_def)

lemma demo_unjson_abcd: "unjsonString ([CHR 0x22] @ ''abcd'' @ [CHR 0x22]) = Inr ''abcd''"
  by (simp add: unjsonString_def jsonPlain_def)

lemma demo_gob_abcd:
  "gobString ''abcd'' =
     Inr [CHR 0x07, CHR 0x0C, CHR 0x00, CHR 0x04, CHR ''a'', CHR ''b'', CHR ''c'', CHR ''d'']"
  by (simp add: gobString_def) code_simp

lemma demo_ungob_abcd:
  "ungobString [CHR 0x07, CHR 0x0C, CHR 0x00, CHR 0x04, CHR ''a'', CHR ''b'', CHR ''c'', CHR ''d'']
     = Inr ''abcd''"
  by (simp add: ungobString_def)

text \<open>
  X1: for every string that matches \<^verbatim>\<open>^[0-9a-f]{4,64}$\<close>, \<^verbatim>\<open>New\<close> succeeds and the string of
  the SHA it builds is that string.
\<close>

theorem New_keeps_a_matching_string:
  "validSHARegex v \<Longrightarrow>
     New unicodeLower v = Inr \<lparr>str = v\<rparr>
     \<and> (\<forall>sha. New unicodeLower v = Inr sha \<longrightarrow> String sha = v)"
  by (simp add: New_valid String_def)

theorem New_keeps_a_matching_string_witness:
  "\<forall>unicodeLower. validSHARegex ''abcd'' \<and> New unicodeLower ''abcd'' = Inr \<lparr>str = ''abcd''\<rparr>"
  using New_keeps_a_matching_string [of "''abcd''"] demo_valid_abcd by simp

text \<open>
  X2: whenever \<^verbatim>\<open>New\<close> succeeds, the string of the SHA matches the pattern and is the
  trimmed, lowercased input.
\<close>

theorem New_builds_only_valid_values:
  "New unicodeLower v = Inr sha \<Longrightarrow>
     validSHARegex (String sha) \<and> String sha = ToLower unicodeLower (TrimSpace v)"
  by (auto simp: New_def Let_def String_def split: if_splits)

theorem New_builds_only_valid_values_witness:
  "\<forall>unicodeLower.
     New unicodeLower ([CHR 0xC2, CHR 0xA0] @ '' ABCD '' @ [CHR 0x0A]) = Inr \<lparr>str = ''abcd''\<rparr>
     \<and> validSHARegex ''abcd''
     \<and> ToLower unicodeLower (TrimSpace ([CHR 0xC2, CHR 0xA0] @ '' ABCD '' @ [CHR 0x0A])) = ''abcd''"
proof
  fix u
  have tr: "TrimSpace ([CHR 0xC2, CHR 0xA0] @ '' ABCD '' @ [CHR 0x0A]) = ''ABCD''"
    by (simp add: TrimSpace_def trimLeftSeqs.simps spaceRunes_def)
  have t: "ToLower u (TrimSpace ([CHR 0xC2, CHR 0xA0] @ '' ABCD '' @ [CHR 0x0A])) = ''abcd''"
    by (simp only: tr demo_lower_ABCD)
  have n: "New u ([CHR 0xC2, CHR 0xA0] @ '' ABCD '' @ [CHR 0x0A]) = Inr \<lparr>str = ''abcd''\<rparr>"
    unfolding New_def Let_def t by (simp add: validSHARegex_def hexDigit_def)
  from New_builds_only_valid_values [OF n, THEN conjunct1] have v: "validSHARegex ''abcd''"
    by (simp add: String_def)
  from n v t
  show "New u ([CHR 0xC2, CHR 0xA0] @ '' ABCD '' @ [CHR 0x0A]) = Inr \<lparr>str = ''abcd''\<rparr>
     \<and> validSHARegex ''abcd''
     \<and> ToLower u (TrimSpace ([CHR 0xC2, CHR 0xA0] @ '' ABCD '' @ [CHR 0x0A])) = ''abcd''"
    by (intro conjI)
qed

text \<open>
  X3: for every SHA and every gob codec that gives the string back, \<^verbatim>\<open>GobEncode\<close> then
  \<^verbatim>\<open>GobDecode\<close> yields the SHA, whatever the receiver held before.
\<close>

theorem gob_encoding_round_trips:
  assumes "enc (str s) = Inr data" and "dec data = Inr (str s)"
  shows "GobEncode enc s = Inr data \<and> GobDecode dec s0 data = (None, s)"
  using assms by (rule Gob_round_trip)

theorem gob_encoding_round_trips_witness:
  "GobEncode gobString \<lparr>str = ''abcd''\<rparr> =
     Inr [CHR 0x07, CHR 0x0C, CHR 0x00, CHR 0x04, CHR ''a'', CHR ''b'', CHR ''c'', CHR ''d'']
   \<and> GobDecode ungobString None_SHA
        [CHR 0x07, CHR 0x0C, CHR 0x00, CHR 0x04, CHR ''a'', CHR ''b'', CHR ''c'', CHR ''d'']
      = (None, \<lparr>str = ''abcd''\<rparr>)"
  using gob_encoding_round_trips
    [where enc = gobString and dec = ungobString and s = "\<lparr>str = ''abcd''\<rparr>" and s0 = None_SHA
       and data = "[CHR 0x07, CHR 0x0C, CHR 0x00, CHR 0x04, CHR ''a'', CHR ''b'', CHR ''c'', CHR ''d'']"]
    demo_gob_abcd demo_ungob_abcd
  by simp

text \<open>
  X4: for every SHA whose string matches the pattern and every JSON codec that gives the
  string back, \<^verbatim>\<open>MarshalJSON\<close> then \<^verbatim>\<open>UnmarshalJSON\<close> yields the SHA.
\<close>

theorem json_encoding_round_trips_valid_values:
  assumes "validSHARegex (str s)" and "enc (str s) = Inr data" and "dec data = Inr (str s)"
  shows "MarshalJSON enc s = Inr data \<and> UnmarshalJSON dec unicodeLower s0 data = (None, s)"
  using assms by (rule JSON_round_trip)

theorem json_encoding_round_trips_valid_values_witness:
  "\<forall>unicodeLower.
     MarshalJSON jsonString \<lparr>str = ''abcd''\<rparr> = Inr ([CHR 0x22] @ ''abcd'' @ [CHR 0x22])
     \<and> UnmarshalJSON unjsonString unicodeLower None_SHA ([CHR 0x22] @ ''abcd'' @ [CHR 0x22])
        = (None, \<lparr>str = ''abcd''\<rparr>)"
  using json_encoding_round_trips_valid_values
    [where enc = jsonString and dec = unjsonString and s = "\<lparr>str = ''abcd''\<rparr>" and s0 = None_SHA
       and data = "[CHR 0x22] @ ''abcd'' @ [CHR 0x22]"]
    demo_json_abcd demo_unjson_abcd demo_valid_abcd
  by simp

text \<open>
  X5: \<^verbatim>\<open>UnmarshalJSON\<close> validates: when the decoded string, trimmed and lowercased, does
  not match the pattern, it fails with the error of \<^verbatim>\<open>New\<close> and leaves the receiver as it
  was.
\<close>

theorem UnmarshalJSON_rejects_what_New_rejects:
  assumes "dec data = Inr st" and "\<not> validSHARegex (ToLower unicodeLower (TrimSpace st))"
  shows "UnmarshalJSON dec unicodeLower s data
           = (Some (InvalidSHA (ToLower unicodeLower (TrimSpace st))), s)"
  using assms by (rule UnmarshalJSON_validates)

theorem UnmarshalJSON_rejects_what_New_rejects_witness:
  "\<forall>unicodeLower.
     UnmarshalJSON unjsonString unicodeLower \<lparr>str = ''abcd''\<rparr> ([CHR 0x22] @ ''xyz'' @ [CHR 0x22])
       = (Some (InvalidSHA ''xyz''), \<lparr>str = ''abcd''\<rparr>)"
proof
  fix u
  have t: "ToLower u (TrimSpace ''xyz'') = ''xyz''"
    by (simp add: demo_trim_xyz demo_lower_xyz)
  have v: "\<not> validSHARegex (ToLower u (TrimSpace ''xyz''))"
    by (simp add: t validSHARegex_def)
  show "UnmarshalJSON unjsonString u \<lparr>str = ''abcd''\<rparr> ([CHR 0x22] @ ''xyz'' @ [CHR 0x22])
       = (Some (InvalidSHA ''xyz''), \<lparr>str = ''abcd''\<rparr>)"
    using UnmarshalJSON_rejects_what_New_rejects
      [where dec = unjsonString and data = "[CHR 0x22] @ ''xyz'' @ [CHR 0x22]" and st = "''xyz''"
         and s = "\<lparr>str = ''abcd''\<rparr>" and unicodeLower = u]
      demo_unjson v t
    by simp
qed

text \<open>X6: every error \<^verbatim>\<open>Validate\<close> returns is a BadRequest.\<close>

theorem Validate_fails_only_with_BadRequest:
  "fst (Validate S K inp) = Some err \<Longrightarrow> \<exists>msg. err = BadRequest msg"
  by (rule Validate_error_is_BadRequest)

theorem Validate_fails_only_with_BadRequest_witness:
  "fst (Validate (Sanitize demoStatuses) (Sanitize [CheckPayloadKindExternal])
          (demoInput\<lparr>CheckUID := ''9lives''\<rparr>))
     = Some (BadRequest (''Status check UID must match the regular expression: '' @ regexpCheckUID))"
proof -
  have e: "fst (Validate (Sanitize demoStatuses) (Sanitize [CheckPayloadKindExternal])
          (demoInput\<lparr>CheckUID := ''9lives''\<rparr>))
     = Some (BadRequest (''Status check UID must match the regular expression: '' @ regexpCheckUID))"
    by (simp add: Validate_def matcherCheckUID_def uidFirstChar_def)
  show ?thesis
    using Validate_fails_only_with_BadRequest [OF e] e by simp
qed

text \<open>
  X7: when access is granted, the input is valid, the commit SHA passes the format check
  and the commit resolves, \<^verbatim>\<open>Report\<close> calls the access check, the commit resolution and
  the upsert in this order, upserts the record built from the validated input with both
  timestamps at the current time, and returns the record the store gives back.
\<close>

theorem Report_upserts_after_all_checks:
  assumes "getRepoCheckAccess c session repoRef PermissionCommitCheckReport = Inr repo"
    and "Validate (StatusSanitize c) (KindSanitize c) inp = (None, in1)"
    and "ValidateCommitSHA c commitSHA"
    and "GetCommit c (Repo_GitUID repo) commitSHA = None"
    and "Upsert c check = Inr stored"
    and "check = \<lparr>Check_CreatedBy = PrincipalID c (Principal session),
                   Check_Created = NowUnixMilli c, Check_Updated = NowUnixMilli c,
                   Check_RepoID = Repo_ID repo, Check_CommitSHA = commitSHA,
                   Check_UID = CheckUID in1, Check_Status = Status in1,
                   Check_Summary = Summary in1, Check_Link = Link in1,
                   Check_Payload = Payload in1,
                   Check_Metadata = MarshalMetadata c metadata,
                   Check_ReportedBy = ToPrincipalInfo c (Principal session)\<rparr>"
  shows "Report c session repoRef commitSHA inp metadata =
           (Inr stored, in1,
            [AccessChecked repoRef PermissionCommitCheckReport,
             CommitResolved (Repo_GitUID repo) commitSHA, CheckUpserted check])"
  using assms by (simp add: Report_def Let_def)

lemma demo_valid_sha: "validSHARegex ''4b825dc6''"
  by (simp add: validSHARegex_def hexDigit_def)

theorem Report_upserts_after_all_checks_witness:
  "fst (Report demoController \<lparr>Principal = ''admin''\<rparr> ''repo'' ''4b825dc6'' demoInput []) =
     Inr \<lparr>Check_CreatedBy = 7, Check_Created = 1000, Check_Updated = 1000, Check_RepoID = 1,
          Check_CommitSHA = ''4b825dc6'', Check_UID = ''ci_build'', Check_Status = ''SUCCESS'',
          Check_Summary = ''passed'', Check_Link = ''https://ci/1'',
          Check_Payload = \<lparr>Version = [], Kind = ''external'', Data = ''{}''\<rparr>,
          Check_Metadata = ''{}'', Check_ReportedBy = ''admin''\<rparr>"
proof -
  have a: "getRepoCheckAccess demoController \<lparr>Principal = ''admin''\<rparr> ''repo'' PermissionCommitCheckReport
             = Inr \<lparr>Repo_ID = 1, Repo_UID = ''repo'', Repo_GitUID = ''git-1''\<rparr>"
    by (simp add: demoController_def)
  have v: "Validate (StatusSanitize demoController) (KindSanitize demoController) demoInput =
     (None, demoInput\<lparr>Payload := \<lparr>Version = [], Kind = ''external'', Data = ''{}''\<rparr>\<rparr>)"
    by (simp add: demoController_def demo_Validate)
  have s: "ValidateCommitSHA demoController ''4b825dc6''"
    by (simp add: demoController_def demo_valid_sha)
  have g: "GetCommit demoController (Repo_GitUID \<lparr>Repo_ID = 1, Repo_UID = ''repo'', Repo_GitUID = ''git-1''\<rparr>)
             ''4b825dc6'' = None"
    by (simp add: demoController_def)
  have u: "\<And>k. Upsert demoController k = Inr k" by (simp add: demoController_def)
  show ?thesis
    using Report_upserts_after_all_checks [OF a v s g u refl, of "[]"]
    by (simp add: demoController_def demoInput_def)
qed

text \<open>
  X8: a check UID of more than 128 characters makes \<^verbatim>\<open>Validate\<close> fail with the BadRequest
  that names the pattern, and the input is left as it was.
\<close>

theorem Validate_rejects_long_uid:
  assumes "128 < length (CheckUID inp)"
  shows "Validate S K inp =
     (Some (BadRequest (''Status check UID must match the regular expression: '' @ regexpCheckUID)),
      inp)"
proof -
  from assms have ne: "CheckUID inp \<noteq> []" by auto
  from assms have "\<not> matcherCheckUID (CheckUID inp)"
    by (cases "CheckUID inp") (auto simp: matcherCheckUID_def)
  with ne show ?thesis by (simp add: Validate_def)
qed

theorem Validate_rejects_long_uid_witness:
  "length (CheckUID (demoInput\<lparr>CheckUID := replicate 129 (CHR ''a'')\<rparr>)) = 129
   \<and> fst (Validate (Sanitize demoStatuses) (Sanitize [CheckPayloadKindExternal])
        (demoInput\<lparr>CheckUID := replicate 129 (CHR ''a'')\<rparr>))
     = Some (BadRequest (''Status check UID must match the regular expression: '' @ regexpCheckUID))"
  using Validate_rejects_long_uid
    [of "demoInput\<lparr>CheckUID := replicate 129 (CHR ''a'')\<rparr>" "Sanitize demoStatuses"
        "Sanitize [CheckPayloadKindExternal]"]
  by simp

text \<open>
  X9: when the check UID matches the pattern, the status and the payload kind sanitize
  and, for the external kind, the link is not empty, \<^verbatim>\<open>Validate\<close> succeeds; when the status
  does not sanitize, \<^verbatim>\<open>Validate\<close> fails with a BadRequest.
\<close>

theorem Validate_accepts_and_rejects_by_status:
  "(matcherCheckUID (CheckUID inp) \<and> snd (S (Status inp)) \<and> snd (K (Kind (Payload inp)))
      \<and> (fst (K (Kind (Payload inp))) = CheckPayloadKindExternal \<longrightarrow> Link inp \<noteq> [])
    \<longrightarrow> fst (Validate S K inp) = None)
   \<and> (\<not> snd (S (Status inp)) \<longrightarrow> (\<exists>msg. fst (Validate S K inp) = Some (BadRequest msg)))"
  by (auto simp: Validate_def Let_def matcherCheckUID_nonempty split: prod.splits)

theorem Validate_accepts_and_rejects_by_status_witness:
  "fst (Validate (Sanitize demoStatuses) (Sanitize [CheckPayloadKindExternal]) demoInput) = None
   \<and> (\<exists>msg. fst (Validate (Sanitize demoStatuses) (Sanitize [CheckPayloadKindExternal])
                  (demoInput\<lparr>Status := ''green''\<rparr>)) = Some (BadRequest msg))"
proof -
  have ok: "matcherCheckUID (CheckUID demoInput) \<and> snd (Sanitize demoStatuses (Status demoInput))
      \<and> snd (Sanitize [CheckPayloadKindExternal] (Kind (Payload demoInput)))
      \<and> Link demoInput \<noteq> []"
    by (simp add: demoInput_def demo_uid demo_sanitize_status demo_sanitize_kind
        CheckPayloadKindExternal_def)
  have bad: "\<not> snd (Sanitize demoStatuses (Status (demoInput\<lparr>Status := ''green''\<rparr>)))"
    by (simp add: Sanitize_def demoStatuses_def lowerChar_def)
  show ?thesis
    using ok bad
      Validate_accepts_and_rejects_by_status
        [of demoInput "Sanitize demoStatuses" "Sanitize [CheckPayloadKindExternal]"]
      Validate_accepts_and_rejects_by_status
        [of "demoInput\<lparr>Status := ''green''\<rparr>" "Sanitize demoStatuses"
            "Sanitize [CheckPayloadKindExternal]"]
    by simp
qed

end
